theory Spec2Isabelle
  imports Main
begin

section \<open>Python values, exceptions and the user interface\<close>

text \<open>
  The program is one Python script, \<^verbatim>\<open>src/app.py\<close>, a Streamlit dashboard over the
  yfinance market-data client. The embedding keeps what the script itself decides and
  takes the libraries as inputs:
  \<^item> an exception is a value \<open>PyErr cls msg\<close> (\<open>msg\<close> is \<^verbatim>\<open>str(e)\<close>); only
    subclasses of \<^verbatim>\<open>Exception\<close> are modelled, which is what
    \<^verbatim>\<open>except Exception\<close> catches;
  \<^item> a value of the metadata dictionary is \<^verbatim>\<open>None\<close>, a number (\<^verbatim>\<open>int\<close> or
    \<^verbatim>\<open>float\<close>, of an abstract type \<open>'n\<close>) or a \<^verbatim>\<open>str\<close>;
  \<^item> how Python prints, scales and tests a number is the record \<open>numops\<close>, an input
    of every function that formats: the script never inspects the digits. A number is
    one that \<^verbatim>\<open>format\<close> prints (every float, every integer in the range of a
    float);
  \<^item> the remote page, the URL parameters, the provider and the two Streamlit calls
    whose result or failure the script depends on (\<^verbatim>\<open>st.selectbox\<close>,
    \<^verbatim>\<open>st.dataframe\<close>) are function arguments; the other Streamlit and plotly
    calls draw and return;
  \<^item> the memoisation of \<^verbatim>\<open>st.cache_data\<close> is left out: every function is modelled
    at a call that runs its body.
\<close>

datatype exc_class =
  TypeError | ValueError | KeyError | AttributeError | IndexError
  | StreamlitAPIException | OtherException

datatype pyerror = PyErr exc_class string

datatype 'n pyval = PyNone | PyNum 'n | PyStr string

text \<open>The three format specifications the script uses: \<^verbatim>\<open>,.0f\<close>, \<^verbatim>\<open>.2f\<close> and \<^verbatim>\<open>,\<close>.\<close>

datatype fmtspec = Comma0f | Dot2f | Comma

record 'n numops =
  format_num :: "fmtspec \<Rightarrow> 'n \<Rightarrow> string"
  mul100 :: "'n \<Rightarrow> 'n"
  truthy_num :: "'n \<Rightarrow> bool"

text \<open>\<^verbatim>\<open>v != s\<close> for a string literal \<open>s\<close>: only an equal \<^verbatim>\<open>str\<close> compares equal.\<close>

fun py_ne_str :: "'n pyval \<Rightarrow> string \<Rightarrow> bool" where
  "py_ne_str (PyStr t) s = (t \<noteq> s)"
| "py_ne_str PyNone s = True"
| "py_ne_str (PyNum n) s = True"

text \<open>
  \<^verbatim>\<open>format(v, spec)\<close> for the three specifications: \<^verbatim>\<open>None\<close> rejects every
  non-empty specification with a TypeError, a \<^verbatim>\<open>str\<close> rejects a float presentation
  type and a thousands separator with a ValueError, a number is printed.
\<close>

fun py_format :: "'n numops \<Rightarrow> fmtspec \<Rightarrow> 'n pyval \<Rightarrow> pyerror + string" where
  "py_format ops spec PyNone =
     Inl (PyErr TypeError ''unsupported format string passed to NoneType.__format__'')"
| "py_format ops spec (PyStr t) =
     Inl (PyErr ValueError
       (if spec = Comma then ''Cannot specify ',' with 's'.''
        else ''Unknown format code 'f' for object of type 'str'' @ [CHR 0x27]))"
| "py_format ops spec (PyNum n) = Inr (format_num ops spec n)"

text \<open>\<^verbatim>\<open>v * 100\<close>: a \<^verbatim>\<open>str\<close> is repeated, \<^verbatim>\<open>None\<close> raises.\<close>

fun py_mul100 :: "'n numops \<Rightarrow> 'n pyval \<Rightarrow> pyerror + 'n pyval" where
  "py_mul100 ops PyNone =
     Inl (PyErr TypeError
       (''unsupported operand type(s) for *: 'NoneType' and 'int'' @ [CHR 0x27]))"
| "py_mul100 ops (PyStr t) = Inr (PyStr (concat (replicate 100 t)))"
| "py_mul100 ops (PyNum n) = Inr (PyNum (mul100 ops n))"

text \<open>Truth value of a metadata value, as \<^verbatim>\<open>if v\<close> tests it.\<close>

fun py_truthy :: "'n numops \<Rightarrow> 'n pyval \<Rightarrow> bool" where
  "py_truthy ops PyNone = False"
| "py_truthy ops (PyStr t) = (t \<noteq> [])"
| "py_truthy ops (PyNum n) = truthy_num ops n"

definition bindE :: "pyerror + 'a \<Rightarrow> ('a \<Rightarrow> pyerror + 'b) \<Rightarrow> pyerror + 'b" where
  "bindE m f = (case m of Inl e \<Rightarrow> Inl e | Inr x \<Rightarrow> f x)"

text \<open>The metadata dictionary \<^verbatim>\<open>info\<close> and \<^verbatim>\<open>info.get(key, default)\<close>.\<close>

type_synonym 'n info = "string \<rightharpoonup> 'n pyval"

definition info_get :: "'n info \<Rightarrow> string \<Rightarrow> 'n pyval \<Rightarrow> 'n pyval" where
  "info_get info k d = (case info k of None \<Rightarrow> d | Some v \<Rightarrow> v)"

subsection \<open>Tables and charts\<close>

text \<open>
  A pandas DataFrame: row labels, column labels and the cell (any Python value) at a
  row and a column position. \<^verbatim>\<open>df.empty\<close> holds when either axis has length zero;
  \<open>empty_frame\<close> is \<^verbatim>\<open>pd.DataFrame()\<close>.
\<close>

record 'n dataframe =
  index :: "string list"
  columns :: "string list"
  iat :: "nat \<Rightarrow> nat \<Rightarrow> 'n pyval"

definition df_empty :: "'n dataframe \<Rightarrow> bool" where
  "df_empty df = (index df = [] \<or> columns df = [])"

definition empty_frame :: "'n dataframe" where
  "empty_frame = \<lparr>index = [], columns = [], iat = (\<lambda>i j. PyNone)\<rparr>"

text \<open>The data of a series (one dimension) or of a frame (rows of cells).\<close>

datatype 'n ydata = Values "'n pyval list" | Values2D "'n pyval list list"

text \<open>
  \<^verbatim>\<open>repr\<close> of a \<^verbatim>\<open>str\<close> without quotes or escapes in it: the text in single
  quotes. It is what \<^verbatim>\<open>str\<close> of a KeyError shows for the missing key.
\<close>

definition py_repr :: "string \<Rightarrow> string" where
  "py_repr s = CHR 0x27 # s @ [CHR 0x27]"

definition positions :: "string list \<Rightarrow> string \<Rightarrow> nat list" where
  "positions labels l = filter (\<lambda>i. labels ! i = l) [0..<length labels]"

text \<open>
  \<^verbatim>\<open>df.loc[label]\<close>, as the pair of the result's \<^verbatim>\<open>.index\<close> and \<^verbatim>\<open>.values\<close>:
  a label that occurs once selects a row as a series indexed by the columns, a repeated
  label selects a frame of rows, a missing label raises KeyError.
\<close>

definition df_loc :: "'n dataframe \<Rightarrow> string \<Rightarrow> pyerror + (string list \<times> 'n ydata)" where
  "df_loc df l =
     (case positions (index df) l of
        [] \<Rightarrow> Inl (PyErr KeyError (py_repr l))
      | [i] \<Rightarrow> Inr (columns df, Values (map (iat df i) [0..<length (columns df)]))
      | ps \<Rightarrow> Inr (map (\<lambda>i. l) ps,
                 Values2D (map (\<lambda>i. map (iat df i) [0..<length (columns df)]) ps)))"

text \<open>\<^verbatim>\<open>df[column]\<close>: the values of a column, KeyError when there is none.\<close>

definition df_getitem :: "'n dataframe \<Rightarrow> string \<Rightarrow> pyerror + 'n ydata" where
  "df_getitem df c =
     (case positions (columns df) c of
        [] \<Rightarrow> Inl (PyErr KeyError (py_repr c))
      | [j] \<Rightarrow> Inr (Values (map (\<lambda>i. iat df i j) [0..<length (index df)]))
      | ps \<Rightarrow> Inr (Values2D (map (\<lambda>i. map (iat df i) ps) [0..<length (index df)])))"

datatype 'n trace =
  Candlestick "string list" "'n ydata" "'n ydata" "'n ydata" "'n ydata" string
  | Bar "string list" "'n ydata" string

text \<open>A plotly figure made by \<^verbatim>\<open>make_subplots\<close>: each trace sits in a (row, column) cell.\<close>

record 'n figure =
  grid_rows :: nat
  grid_cols :: nat
  subplot_titles :: "string list"
  traces :: "(nat \<times> nat \<times> 'n trace) list"
  layout_title :: string
  layout_height :: nat

definition add_trace :: "'n figure \<Rightarrow> 'n trace \<Rightarrow> nat \<Rightarrow> nat \<Rightarrow> 'n figure" where
  "add_trace fig t r c = fig\<lparr>traces := traces fig @ [(r, c, t)]\<rparr>"

definition cell_traces :: "'n figure \<Rightarrow> nat \<Rightarrow> nat \<Rightarrow> 'n trace list" where
  "cell_traces fig r c = map (\<lambda>(r', c', t). t) (filter (\<lambda>(r', c', t). r' = r \<and> c' = c) (traces fig))"

subsection \<open>What the page shows\<close>

text \<open>
  One constructor per Streamlit call. The HTML wrappers and pictographs of the
  \<^verbatim>\<open>st.markdown\<close> headers are left out: \<open>SectionHeader t\<close> is the
  \<^verbatim>\<open>section-header\<close> block titled \<open>t\<close>. \<open>WriteValue l v\<close> is
  \<^verbatim>\<open>st.write\<close> of an f-string that interpolates \<open>v\<close> after the label \<open>l\<close>.
  \<open>Metric c l v\<close> is \<^verbatim>\<open>st.metric(l, v)\<close> in column \<open>c\<close>.
\<close>

datatype 'n ui_event =
  PageTitle string
  | InfoBox string
  | SectionHeader string
  | Markdown string
  | Header string
  | Subheader string
  | Write string
  | WriteValue string "'n pyval"
  | Metric nat string "'n pyval"
  | Dataframe "'n dataframe"
  | PlotlyChart "'n figure"
  | Warning string
  | Error string
  | Info string
  | Selectbox string "string list" nat
  | Button string
  | Spinner string

text \<open>
  A call that draws on the page and may raise: the events drawn, in order, and either
  the exception or the result. An exception ends the sequence.
\<close>

type_synonym ('n, 'a) io = "'n ui_event list \<times> (pyerror + 'a)"

definition returnIO :: "'a \<Rightarrow> ('n, 'a) io" where
  "returnIO x = ([], Inr x)"

definition raiseIO :: "pyerror \<Rightarrow> ('n, 'a) io" where
  "raiseIO e = ([], Inl e)"

definition liftE :: "pyerror + 'a \<Rightarrow> ('n, 'a) io" where
  "liftE r = ([], r)"

definition emit :: "'n ui_event \<Rightarrow> ('n, unit) io" where
  "emit ev = ([ev], Inr ())"

definition bindIO :: "('n, 'a) io \<Rightarrow> ('a \<Rightarrow> ('n, 'b) io) \<Rightarrow> ('n, 'b) io" where
  "bindIO m f =
     (case m of
        (es, Inl e) \<Rightarrow> (es, Inl e)
      | (es, Inr x) \<Rightarrow> (case f x of (es', r) \<Rightarrow> (es @ es', r)))"

definition thenIO :: "('n, 'a) io \<Rightarrow> ('n, 'b) io \<Rightarrow> ('n, 'b) io" where
  "thenIO m k = bindIO m (\<lambda>x. k)"

fun seqIO :: "('n, unit) io list \<Rightarrow> ('n, unit) io" where
  "seqIO [] = returnIO ()"
| "seqIO (m # ms) = thenIO m (seqIO ms)"

text \<open>\<^verbatim>\<open>try: m  except Exception as e: h e\<close>.\<close>

definition tryIO :: "('n, 'a) io \<Rightarrow> (pyerror \<Rightarrow> ('n, 'a) io) \<Rightarrow> ('n, 'a) io" where
  "tryIO m h =
     (case m of
        (es, Inl e) \<Rightarrow> (case h e of (es', r) \<Rightarrow> (es @ es', r))
      | (es, Inr x) \<Rightarrow> (es, Inr x))"

definition exc_str :: "pyerror \<Rightarrow> string" where
  "exc_str e = (case e of PyErr c msg \<Rightarrow> msg)"

section \<open>Ticker universe (\<^verbatim>\<open>get_sp500_tickers\<close>)\<close>

text \<open>
  The tables \<^verbatim>\<open>pd.read_html\<close> parses from the remote page: each table is its columns,
  by header. The remote source is the function from the number of the call to the
  outcome of that call, so that a second attempt, were there one, would be visible in
  the call counter that the function returns.
\<close>

type_synonym html_table = "(string \<times> string list) list"

type_synonym remote = "nat \<Rightarrow> pyerror + html_table list"

definition fallback_tickers :: "string list" where
  "fallback_tickers =
     [''AAPL'', ''MSFT'', ''AMZN'', ''GOOGL'', ''GOOG'', ''TSLA'', ''META'', ''NVDA'', ''BRK-B'', ''UNH'',
      ''JNJ'', ''JPM'', ''V'', ''PG'', ''MA'', ''HD'', ''CVX'', ''ABBV'', ''BAC'', ''PFE'',
      ''KO'', ''AVGO'', ''PEP'', ''TMO'', ''COST'', ''WMT'', ''DIS'', ''ABT'', ''MRK'', ''VZ'',
      ''ADBE'', ''NFLX'', ''NKE'', ''CRM'', ''XOM'', ''ACN'', ''DHR'', ''BMY'', ''LIN'', ''TXN'',
      ''ORCL'', ''WFC'', ''NEE'', ''QCOM'', ''PM'', ''RTX'', ''UPS'', ''SBUX'', ''T'', ''LOW'']"

text \<open>\<^verbatim>\<open>tables[0]\<close> and \<^verbatim>\<open>table['Symbol']\<close>.\<close>

definition first_table :: "html_table list \<Rightarrow> pyerror + html_table" where
  "first_table ts =
     (case ts of [] \<Rightarrow> Inl (PyErr IndexError ''list index out of range'') | t # rest \<Rightarrow> Inr t)"

definition table_column :: "html_table \<Rightarrow> string \<Rightarrow> pyerror + string list" where
  "table_column t c =
     (case map_of t c of None \<Rightarrow> Inl (PyErr KeyError (py_repr c)) | Some vs \<Rightarrow> Inr vs)"

text \<open>
  The body of the \<^verbatim>\<open>try\<close>, then the function: a bare \<^verbatim>\<open>except\<close> returns the
  fixed list. No Streamlit call is made on either path.
\<close>

definition read_symbols :: "remote \<Rightarrow> nat \<Rightarrow> pyerror + string list" where
  "read_symbols read_html k =
     bindE (read_html k) (\<lambda>tables.
     bindE (first_table tables) (\<lambda>table.
     table_column table ''Symbol''))"

definition get_sp500_tickers :: "remote \<Rightarrow> nat \<Rightarrow> ('n, string list) io \<times> nat" where
  "get_sp500_tickers read_html k =
     (case read_symbols read_html k of
        Inr symbols \<Rightarrow> (returnIO symbols, Suc k)
      | Inl e \<Rightarrow> (returnIO fallback_tickers, Suc k))"

section \<open>URL parameters (\<^verbatim>\<open>get_query_params\<close>)\<close>

text \<open>
  \<open>qget key\<close> is the outcome of \<^verbatim>\<open>st.query_params.get(key, default)\<close> before the
  default is applied: the stored string, nothing, or an exception.
\<close>

type_synonym query_params = "string \<Rightarrow> pyerror + string option"

definition with_default :: "'a option \<Rightarrow> 'a \<Rightarrow> 'a" where
  "with_default v d = (case v of None \<Rightarrow> d | Some x \<Rightarrow> x)"

definition get_query_params :: "query_params \<Rightarrow> string \<times> string" where
  "get_query_params qget =
     (case bindE (qget ''ticker'') (\<lambda>t.
           bindE (qget ''period'') (\<lambda>p.
           Inr (with_default t ''GOOGL'', with_default p ''1y'')))
      of Inr r \<Rightarrow> r
       | Inl e \<Rightarrow> (''AAPL'', ''1y''))"

section \<open>Market data (\<^verbatim>\<open>get_stock_data\<close>, \<^verbatim>\<open>get_financial_data\<close>)\<close>

text \<open>
  A \<^verbatim>\<open>yf.Ticker\<close> object: the outcome of each attribute the script reads (a table,
  \<^verbatim>\<open>None\<close>, or an exception). \<^verbatim>\<open>info\<close> is read twice, once by
  \<^verbatim>\<open>hasattr\<close> and once for its value.
\<close>

record 'n stock =
  yf_history :: "string \<Rightarrow> pyerror + 'n dataframe option"
  yf_financials :: "pyerror + 'n dataframe option"
  yf_quarterly_financials :: "pyerror + 'n dataframe option"
  yf_income_stmt :: "pyerror + 'n dataframe option"
  yf_quarterly_income_stmt :: "pyerror + 'n dataframe option"
  yf_balance_sheet :: "pyerror + 'n dataframe option"
  yf_quarterly_balance_sheet :: "pyerror + 'n dataframe option"
  yf_cashflow :: "pyerror + 'n dataframe option"
  yf_quarterly_cashflow :: "pyerror + 'n dataframe option"
  yf_actions :: "pyerror + 'n dataframe option"
  yf_info_hasattr :: "pyerror + 'n info"
  yf_info :: "pyerror + 'n info"

text \<open>\<^verbatim>\<open>yf.Ticker(ticker)\<close>: the provider.\<close>

type_synonym 'n provider = "string \<Rightarrow> pyerror + 'n stock"

definition get_stock_data :: "'n provider \<Rightarrow> string \<Rightarrow> string \<Rightarrow> ('n, 'n dataframe option) io" where
  "get_stock_data yf ticker period =
     tryIO (liftE (bindE (yf ticker) (\<lambda>stock. yf_history stock period)))
       (\<lambda>e. thenIO (emit (Error (''Error fetching data: '' @ exc_str e))) (returnIO None))"

text \<open>
  The dictionary \<^verbatim>\<open>get_financial_data\<close> returns. An entry is a Python value:
  \<open>None\<close> is \<^verbatim>\<open>None\<close>, \<open>Some df\<close> a table.
\<close>

record 'n statement_bundle =
  financials :: "'n dataframe option"
  quarterly_financials :: "'n dataframe option"
  income_stmt :: "'n dataframe option"
  quarterly_income_stmt :: "'n dataframe option"
  balance_sheet :: "'n dataframe option"
  quarterly_balance_sheet :: "'n dataframe option"
  cash_flow :: "'n dataframe option"
  quarterly_cash_flow :: "'n dataframe option"
  actions :: "'n dataframe option"
  info_dict :: "'n info"

text \<open>
  \<^verbatim>\<open>safe_get_data(func, default)\<close>: \<open>func\<close> is the outcome of calling the lambda.
\<close>

definition safe_get_data ::
  "pyerror + 'n dataframe option \<Rightarrow> 'n dataframe option \<Rightarrow> 'n dataframe option" where
  "safe_get_data func dflt =
     (case func of
        Inr data \<Rightarrow> (if data \<noteq> None then data else dflt)
      | Inl e \<Rightarrow> dflt)"

text \<open>
  \<^verbatim>\<open>stock.info if hasattr(stock, 'info') else {}\<close>: \<^verbatim>\<open>hasattr\<close> turns an
  AttributeError into \<^verbatim>\<open>False\<close> and lets every other exception through.
\<close>

definition stock_info :: "'n stock \<Rightarrow> pyerror + 'n info" where
  "stock_info stock =
     (case yf_info_hasattr stock of
        Inr v \<Rightarrow> yf_info stock
      | Inl (PyErr AttributeError msg) \<Rightarrow> Inr Map.empty
      | Inl e \<Rightarrow> Inl e)"

definition build_bundle :: "'n stock \<Rightarrow> pyerror + 'n statement_bundle" where
  "build_bundle stock =
     (let dflt = Some empty_frame in
      bindE (stock_info stock) (\<lambda>i. Inr
        \<lparr>financials = safe_get_data (yf_financials stock) dflt,
         quarterly_financials = safe_get_data (yf_quarterly_financials stock) dflt,
         income_stmt = safe_get_data (yf_income_stmt stock) dflt,
         quarterly_income_stmt = safe_get_data (yf_quarterly_income_stmt stock) dflt,
         balance_sheet = safe_get_data (yf_balance_sheet stock) dflt,
         quarterly_balance_sheet = safe_get_data (yf_quarterly_balance_sheet stock) dflt,
         cash_flow = safe_get_data (yf_cashflow stock) dflt,
         quarterly_cash_flow = safe_get_data (yf_quarterly_cashflow stock) dflt,
         actions = safe_get_data (yf_actions stock) dflt,
         info_dict = i\<rparr>))"

definition get_financial_data :: "'n provider \<Rightarrow> string \<Rightarrow> ('n, 'n statement_bundle option) io" where
  "get_financial_data yf ticker =
     tryIO (liftE (bindE (yf ticker) (\<lambda>stock.
                   bindE (build_bundle stock) (\<lambda>b. Inr (Some b)))))
       (\<lambda>e. thenIO (emit (Error (''Error fetching financial data: '' @ exc_str e)))
                   (returnIO None))"

section \<open>Charts (\<^verbatim>\<open>plot_stock_price\<close>, \<^verbatim>\<open>plot_financial_metrics\<close>)\<close>

definition make_subplots :: "nat \<Rightarrow> nat \<Rightarrow> string list \<Rightarrow> 'n figure" where
  "make_subplots r c titles =
     \<lparr>grid_rows = r, grid_cols = c, subplot_titles = titles, traces = [],
      layout_title = [], layout_height = 0\<rparr>"

text \<open>
  \<^verbatim>\<open>go.Candlestick(x, open, high, low, close, name)\<close>: each of the four price
  arguments has to be a series. A frame, which is what a repeated column label selects,
  is refused with a ValueError (its long message is abbreviated here).
\<close>

definition is_series :: "'n ydata \<Rightarrow> bool" where
  "is_series y = (case y of Values vs \<Rightarrow> True | Values2D rows \<Rightarrow> False)"

definition go_Candlestick ::
  "string list \<Rightarrow> 'n ydata \<Rightarrow> 'n ydata \<Rightarrow> 'n ydata \<Rightarrow> 'n ydata \<Rightarrow> string
     \<Rightarrow> pyerror + 'n trace" where
  "go_Candlestick x op hi lo cl name =
     (if is_series op \<and> is_series hi \<and> is_series lo \<and> is_series cl
      then Inr (Candlestick x op hi lo cl name)
      else Inl (PyErr ValueError ''Invalid value received for a property of candlestick''))"

definition plot_stock_price :: "'n dataframe \<Rightarrow> string \<Rightarrow> pyerror + 'n figure" where
  "plot_stock_price hist_data ticker =
     (let fig = make_subplots 2 1 [ticker @ '' Stock Price'', ''Trading Volume''] in
      bindE (df_getitem hist_data ''Open'') (\<lambda>op.
      bindE (df_getitem hist_data ''High'') (\<lambda>hi.
      bindE (df_getitem hist_data ''Low'') (\<lambda>lo.
      bindE (df_getitem hist_data ''Close'') (\<lambda>cl.
      bindE (go_Candlestick (index hist_data) op hi lo cl ''Stock Price'') (\<lambda>candles.
      let fig = add_trace fig candles 1 1 in
      bindE (df_getitem hist_data ''Volume'') (\<lambda>vol.
      let fig = add_trace fig (Bar (index hist_data) vol ''Volume'') 2 1 in
      Inr (fig\<lparr>layout_title := ticker @ '' Stock Price and Volume'',
                layout_height := 600\<rparr>))))))))"

text \<open>An attribute read on an entry of the dictionary: \<^verbatim>\<open>None\<close> has none.\<close>

definition no_attribute :: "string \<Rightarrow> pyerror" where
  "no_attribute a =
     PyErr AttributeError
       (CHR 0x27 # ''NoneType' object has no attribute '' @ [CHR 0x27] @ a @ [CHR 0x27])"

definition attr_empty :: "'n dataframe option \<Rightarrow> pyerror + bool" where
  "attr_empty data =
     (case data of None \<Rightarrow> Inl (no_attribute ''empty'') | Some df \<Rightarrow> Inr (df_empty df))"

definition attr_index :: "'n dataframe option \<Rightarrow> pyerror + string list" where
  "attr_index data =
     (case data of None \<Rightarrow> Inl (no_attribute ''index'') | Some df \<Rightarrow> Inr (index df))"

definition attr_columns :: "'n dataframe option \<Rightarrow> pyerror + string list" where
  "attr_columns data =
     (case data of None \<Rightarrow> Inl (no_attribute ''columns'') | Some df \<Rightarrow> Inr (columns df))"

definition attr_loc :: "'n dataframe option \<Rightarrow> string \<Rightarrow> pyerror + (string list \<times> 'n ydata)" where
  "attr_loc data l =
     (case data of None \<Rightarrow> Inl (no_attribute ''loc'') | Some df \<Rightarrow> df_loc df l)"

text \<open>
  One \<^verbatim>\<open>if label in stmt.index: fig.add_trace(go.Bar(...), row, col)\<close> block.
\<close>

definition add_line_item ::
  "'n figure \<Rightarrow> 'n dataframe option \<Rightarrow> string \<Rightarrow> string \<Rightarrow> nat \<Rightarrow> nat \<Rightarrow> pyerror + 'n figure" where
  "add_line_item fig stmt label name r c =
     bindE (attr_index stmt) (\<lambda>idx.
       if label \<in> set idx
       then bindE (attr_loc stmt label) (\<lambda>(x, y). Inr (add_trace fig (Bar x y name) r c))
       else Inr fig)"

definition plot_financial_metrics :: "'n statement_bundle \<Rightarrow> string \<Rightarrow> pyerror + 'n figure option" where
  "plot_financial_metrics financial_data ticker =
     bindE (attr_empty (income_stmt financial_data)) (\<lambda>e.
     if e then Inr None
     else
       let income = income_stmt financial_data;
           fig = make_subplots 2 2 [''Annual Revenue Trend'', ''Net Income Trend'',
                                    ''Quarterly Revenue'', ''Quarterly Net Income'']
       in
       bindE (add_line_item fig income ''Total Revenue'' ''Annual Revenue'' 1 1) (\<lambda>fig.
       bindE (add_line_item fig income ''Net Income'' ''Annual Net Income'' 1 2) (\<lambda>fig.
       let quarterly_income = quarterly_income_stmt financial_data in
       bindE (attr_empty quarterly_income) (\<lambda>qe.
       bindE (if \<not> qe
              then bindE (add_line_item fig quarterly_income ''Total Revenue'' ''Quarterly Revenue'' 2 1)
                     (\<lambda>fig. add_line_item fig quarterly_income ''Net Income'' ''Quarterly Net Income'' 2 2)
              else Inr fig) (\<lambda>fig.
       Inr (Some (fig\<lparr>layout_height := 600,
                      layout_title := ticker @ '' Financial Performance''\<rparr>)))))))"

section \<open>Key metrics (\<^verbatim>\<open>display_key_metrics\<close>)\<close>

text \<open>
  Each metric reads its field with the default \<^verbatim>\<open>'N/A'\<close>, formats it when it differs
  from \<^verbatim>\<open>'N/A'\<close> and passes the result to \<^verbatim>\<open>st.metric\<close>. The eight blocks are
  the definitions below, in the order of the source; \<open>display_key_metrics\<close> runs them.
\<close>

definition NA :: "'n pyval" where
  "NA = PyStr ''N/A''"

definition market_cap_value :: "'n numops \<Rightarrow> 'n info \<Rightarrow> pyerror + 'n pyval" where
  "market_cap_value ops info =
     (let market_cap = info_get info ''marketCap'' NA in
      if py_ne_str market_cap ''N/A''
      then bindE (py_format ops Comma0f market_cap) (\<lambda>s. Inr (PyStr (''$'' @ s)))
      else Inr market_cap)"

definition pe_ratio_value :: "'n numops \<Rightarrow> 'n info \<Rightarrow> pyerror + 'n pyval" where
  "pe_ratio_value ops info =
     (let pe_ratio = info_get info ''trailingPE'' NA in
      if py_ne_str pe_ratio ''N/A''
      then bindE (py_format ops Dot2f pe_ratio) (\<lambda>s. Inr (PyStr s))
      else Inr pe_ratio)"

definition current_price_value :: "'n numops \<Rightarrow> 'n info \<Rightarrow> pyerror + 'n pyval" where
  "current_price_value ops info =
     (let current_price =
        info_get info ''currentPrice'' (info_get info ''regularMarketPrice'' NA) in
      if py_ne_str current_price ''N/A''
      then bindE (py_format ops Dot2f current_price) (\<lambda>s. Inr (PyStr (''$'' @ s)))
      else Inr current_price)"

definition dividend_yield_value :: "'n numops \<Rightarrow> 'n info \<Rightarrow> pyerror + 'n pyval" where
  "dividend_yield_value ops info =
     (let dividend_yield = info_get info ''dividendYield'' NA in
      if py_ne_str dividend_yield ''N/A''
      then bindE (py_mul100 ops dividend_yield) (\<lambda>p.
           bindE (py_format ops Dot2f p) (\<lambda>s. Inr (PyStr (s @ ''%''))))
      else Inr dividend_yield)"

definition day_range_value :: "'n numops \<Rightarrow> 'n info \<Rightarrow> pyerror + 'n pyval" where
  "day_range_value ops info =
     (let day_high = info_get info ''dayHigh'' NA;
          day_low = info_get info ''dayLow'' NA in
      if py_ne_str day_high ''N/A'' \<and> py_ne_str day_low ''N/A''
      then bindE (py_format ops Dot2f day_low) (\<lambda>l.
           bindE (py_format ops Dot2f day_high) (\<lambda>h.
             Inr (PyStr (''$'' @ l @ '' - $'' @ h))))
      else Inr (PyStr ''N/A''))"

definition book_value_value :: "'n numops \<Rightarrow> 'n info \<Rightarrow> pyerror + 'n pyval" where
  "book_value_value ops info =
     (let book_value = info_get info ''bookValue'' NA in
      if py_ne_str book_value ''N/A''
      then bindE (py_format ops Dot2f book_value) (\<lambda>s. Inr (PyStr (''$'' @ s)))
      else Inr book_value)"

definition volume_value :: "'n numops \<Rightarrow> 'n info \<Rightarrow> pyerror + 'n pyval" where
  "volume_value ops info =
     (let volume = info_get info ''volume'' NA in
      if py_ne_str volume ''N/A''
      then bindE (py_format ops Comma volume) (\<lambda>s. Inr (PyStr s))
      else Inr volume)"

definition beta_value :: "'n numops \<Rightarrow> 'n info \<Rightarrow> pyerror + 'n pyval" where
  "beta_value ops info =
     (let beta = info_get info ''beta'' NA in
      if py_ne_str beta ''N/A''
      then bindE (py_format ops Dot2f beta) (\<lambda>s. Inr (PyStr s))
      else Inr beta)"

definition st_metric :: "nat \<Rightarrow> string \<Rightarrow> pyerror + 'n pyval \<Rightarrow> ('n, unit) io" where
  "st_metric c label v = bindIO (liftE v) (\<lambda>x. emit (Metric c label x))"

definition display_key_metrics :: "'n numops \<Rightarrow> 'n info \<Rightarrow> ('n, unit) io" where
  "display_key_metrics ops info = seqIO
     [st_metric 1 ''Market Cap'' (market_cap_value ops info),
      st_metric 1 ''P/E Ratio'' (pe_ratio_value ops info),
      st_metric 2 ''Current Price'' (current_price_value ops info),
      st_metric 2 ''Dividend Yield'' (dividend_yield_value ops info),
      st_metric 3 ''Day Range'' (day_range_value ops info),
      st_metric 3 ''Book Value'' (book_value_value ops info),
      st_metric 4 ''Volume'' (volume_value ops info),
      st_metric 4 ''Beta'' (beta_value ops info)]"

section \<open>Tables (\<^verbatim>\<open>safe_display_dataframe\<close>, \<^verbatim>\<open>display_all_financial_data\<close>)\<close>

text \<open>
  \<^verbatim>\<open>st.dataframe\<close> belongs to the framework; \<open>render df\<close> is the exception it raises
  on \<open>df\<close>, if any. When it raises nothing is drawn.
\<close>

type_synonym 'n renderer = "'n dataframe \<Rightarrow> pyerror option"

definition st_dataframe :: "'n renderer \<Rightarrow> 'n dataframe \<Rightarrow> ('n, unit) io" where
  "st_dataframe render df =
     (case render df of None \<Rightarrow> emit (Dataframe df) | Some e \<Rightarrow> raiseIO e)"

definition safe_display_dataframe ::
  "'n renderer \<Rightarrow> 'n dataframe option \<Rightarrow> string \<Rightarrow> string \<Rightarrow> ('n, unit) io" where
  "safe_display_dataframe render data ttl warning_msg =
     tryIO
       (case data of
          None \<Rightarrow> emit (Warning warning_msg)
        | Some df \<Rightarrow>
            if \<not> df_empty df
            then (if length (columns df) > 0 \<and> length (index df) > 0
                  then st_dataframe render df
                  else emit (Warning warning_msg))
            else emit (Warning warning_msg))
       (\<lambda>e. seqIO [emit (Error (''Error displaying '' @ ttl @ '': '' @ exc_str e)),
                   emit (Warning (''Unable to display '' @ ttl @ '' data.''))])"

definition display_all_financial_data :: "'n renderer \<Rightarrow> 'n statement_bundle \<Rightarrow> ('n, unit) io" where
  "display_all_financial_data render financial_data = seqIO
     [emit (SectionHeader ''Annual Reports''),
      emit (Subheader ''Annual Financial Statements''),
      safe_display_dataframe render (financials financial_data) ''Annual Financials''
        ''No annual financial data available.'',
      emit (Markdown ''---''),
      emit (Subheader ''Annual Income Statement''),
      safe_display_dataframe render (income_stmt financial_data) ''Annual Income Statement''
        ''No Annual Income Statement data available.'',
      emit (Markdown ''---''),
      emit (Subheader ''Annual Balance Sheet''),
      safe_display_dataframe render (balance_sheet financial_data) ''Annual Balance Sheet''
        ''No Annual Balance Sheet data available.'',
      emit (Markdown ''---''),
      emit (Subheader ''Annual Cash Flow''),
      safe_display_dataframe render (cash_flow financial_data) ''Annual Cash Flow''
        ''No Annual Cash Flow data available.'',
      emit (Markdown ''---''),
      emit (SectionHeader ''Quarterly Reports''),
      emit (Subheader ''Quarterly Financial Statements''),
      safe_display_dataframe render (quarterly_financials financial_data) ''Quarterly Financials''
        ''No quarterly financial data available.'',
      emit (Markdown ''---''),
      emit (Subheader ''Quarterly Income Statement''),
      safe_display_dataframe render (quarterly_income_stmt financial_data)
        ''Quarterly Income Statement'' ''No Quarterly Income Statement data available.'',
      emit (Markdown ''---''),
      emit (Subheader ''Quarterly Balance Sheet''),
      safe_display_dataframe render (quarterly_balance_sheet financial_data)
        ''Quarterly Balance Sheet'' ''No Quarterly Balance Sheet data available.'',
      emit (Markdown ''---''),
      emit (Subheader ''Quarterly Cash Flow''),
      safe_display_dataframe render (quarterly_cash_flow financial_data) ''Quarterly Cash Flow''
        ''No Quarterly Cash Flow data available.'']"

section \<open>The page (\<^verbatim>\<open>main\<close>)\<close>

text \<open>
  \<^verbatim>\<open>main\<close> in two halves: the selection (header and sidebar, which yield the
  selected ticker and period) and the analysis of the selection. \<open>pick key options i\<close>
  is what \<^verbatim>\<open>st.selectbox\<close> returns for the widget \<open>key\<close>; \<open>first_run_pick\<close>
  is its value in a new session, where no widget state is stored: the option at the
  initial index, \<^verbatim>\<open>None\<close> when there are no options.
\<close>

type_synonym picker = "string \<Rightarrow> string list \<Rightarrow> nat \<Rightarrow> pyerror + string option"

definition first_run_pick :: picker where
  "first_run_pick key options i =
     (if options = [] then Inr None
      else if i < length options then Inr (Some (options ! i))
      else Inl (PyErr StreamlitAPIException
                  ''Selectbox index must be greater than or equal to 0 and less than the length of options.''))"

definition st_selectbox ::
  "picker \<Rightarrow> string \<Rightarrow> string list \<Rightarrow> nat \<Rightarrow> string \<Rightarrow> ('n, string option) io" where
  "st_selectbox pick label options i key =
     bindIO (liftE (pick key options i)) (\<lambda>v.
     thenIO (emit (Selectbox label options i)) (returnIO v))"

definition period_options :: "(string \<times> string) list" where
  "period_options =
     [(''1 Month'', ''1mo''), (''3 Months'', ''3mo''), (''6 Months'', ''6mo''),
      (''1 Year'', ''1y''), (''2 Years'', ''2y''), (''5 Years'', ''5y'')]"

text \<open>\<^verbatim>\<open>xs.index(x)\<close>: the first position, ValueError when there is none.\<close>

fun list_index :: "string list \<Rightarrow> string \<Rightarrow> pyerror + nat" where
  "list_index [] x = Inl (PyErr ValueError (py_repr x @ '' is not in list''))"
| "list_index (y # ys) x =
     (if y = x then Inr 0 else bindE (list_index ys x) (\<lambda>i. Inr (Suc i)))"

text \<open>
  The loop over \<^verbatim>\<open>enumerate(period_options.items())\<close>: the position of the first
  entry whose code is the URL's, the initial value when the loop ends without a match.
\<close>

fun find_period_index :: "(string \<times> string) list \<Rightarrow> string \<Rightarrow> nat \<Rightarrow> nat \<Rightarrow> nat" where
  "find_period_index [] url_period i period_index = period_index"
| "find_period_index ((name, v) # rest) url_period i period_index =
     (if v = url_period then i else find_period_index rest url_period (Suc i) period_index)"

text \<open>\<^verbatim>\<open>period_options[selected_period_name]\<close>.\<close>

definition period_code :: "string option \<Rightarrow> pyerror + string" where
  "period_code selected_period_name =
     (case selected_period_name of
        None \<Rightarrow> Inl (PyErr KeyError ''None'')
      | Some n \<Rightarrow> (case map_of period_options n of
                     None \<Rightarrow> Inl (PyErr KeyError (py_repr n))
                   | Some c \<Rightarrow> Inr c))"

definition str_or_none :: "string option \<Rightarrow> 'n pyval" where
  "str_or_none v = (case v of None \<Rightarrow> PyNone | Some t \<Rightarrow> PyStr t)"

definition main_selection ::
  "picker \<Rightarrow> string list \<Rightarrow> query_params \<Rightarrow> ('n, string option \<times> string) io" where
  "main_selection pick SP500_TICKERS qget =
     (let (url_ticker, url_period) = get_query_params qget;
          url_ticker = (if url_ticker \<notin> set SP500_TICKERS then ''AAPL'' else url_ticker);
          ticker_index = (case list_index SP500_TICKERS url_ticker of
                            Inr i \<Rightarrow> i | Inl e \<Rightarrow> 0);
          period_index = find_period_index period_options url_period 0 3
      in
      thenIO (seqIO [emit (PageTitle ''Stock Analysis Dashboard''),
                     emit (InfoBox ''Comprehensive financial information and stock price analysis for S&P 500 companies.''),
                     emit (Header ''Settings'')])
     (bindIO (st_selectbox pick ''Select S&P 500 Stock:'' SP500_TICKERS ticker_index
                ''ticker_selectbox'') (\<lambda>selected_ticker.
      bindIO (st_selectbox pick ''Analysis Period:'' (map fst period_options) period_index
                ''period_selectbox'') (\<lambda>selected_period_name.
      bindIO (liftE (period_code selected_period_name)) (\<lambda>selected_period.
      thenIO (seqIO [emit (Button ''Start Analysis''),
                     emit (Markdown ''---''),
                     emit (Markdown ''**Current Selection:**''),
                     emit (WriteValue ''Ticker'' (str_or_none selected_ticker)),
                     emit (WriteValue ''Period'' (PyStr selected_period))])
             (returnIO (selected_ticker, selected_period)))))))"

text \<open>The company information block; \<^verbatim>\<open>info.get(key)\<close> defaults to \<^verbatim>\<open>None\<close>.\<close>

definition employees_line :: "'n numops \<Rightarrow> 'n info \<Rightarrow> ('n, unit) io" where
  "employees_line ops info =
     (if py_truthy ops (info_get info ''fullTimeEmployees'' PyNone)
      then bindIO (liftE (py_format ops Comma (info_get info ''fullTimeEmployees'' NA)))
             (\<lambda>s. emit (WriteValue ''Employees'' (PyStr s)))
      else emit (Write ''**Employees:** N/A''))"

definition company_information :: "'n numops \<Rightarrow> 'n info \<Rightarrow> ('n, unit) io" where
  "company_information ops info = seqIO
     [emit (SectionHeader ''Company Information''),
      emit (WriteValue ''Company Name'' (info_get info ''longName'' NA)),
      emit (WriteValue ''Sector'' (info_get info ''sector'' NA)),
      emit (WriteValue ''Industry'' (info_get info ''industry'' NA)),
      emit (WriteValue ''Country'' (info_get info ''country'' NA)),
      employees_line ops info,
      emit (WriteValue ''Website'' (info_get info ''website'' NA)),
      emit (WriteValue ''Founded'' (info_get info ''foundingYear'' NA)),
      (case info ''longBusinessSummary'' of
         None \<Rightarrow> returnIO ()
       | Some summary \<Rightarrow> seqIO [emit (Write ''**Company Description:**''),
                               emit (WriteValue [] summary)])]"

text \<open>The dividends and splits block at the end of the page.\<close>

definition actions_section :: "'n renderer \<Rightarrow> 'n statement_bundle \<Rightarrow> ('n, unit) io" where
  "actions_section render financial_data =
     bindIO (liftE (attr_empty (actions financial_data))) (\<lambda>e.
       if \<not> e
       then thenIO (emit (SectionHeader ''Dividends and Stock Splits''))
              (case actions financial_data of
                 None \<Rightarrow> raiseIO (no_attribute ''empty'')
               | Some df \<Rightarrow> st_dataframe render df)
       else returnIO ())"

text \<open>
  What is drawn when both fetches returned a value: the sections from the company
  information to the statement tables, then the dividends and splits block. In
  \<^verbatim>\<open>if financial_chart\<close> a figure counts as true, \<^verbatim>\<open>None\<close> as false.
\<close>

definition analysis_body ::
  "'n numops \<Rightarrow> 'n renderer \<Rightarrow> 'n dataframe \<Rightarrow> 'n statement_bundle \<Rightarrow> string \<Rightarrow> ('n, unit) io" where
  "analysis_body ops render hist_data financial_data selected_ticker = seqIO
     [company_information ops (info_dict financial_data),
      emit (SectionHeader (selected_ticker @ '' Key Metrics'')),
      display_key_metrics ops (info_dict financial_data),
      emit (SectionHeader ''Stock Price Chart''),
      bindIO (liftE (plot_stock_price hist_data selected_ticker))
        (\<lambda>price_chart. emit (PlotlyChart price_chart)),
      emit (SectionHeader ''Financial Performance''),
      bindIO (liftE (plot_financial_metrics financial_data selected_ticker))
        (\<lambda>financial_chart.
           case financial_chart of
             None \<Rightarrow> returnIO ()
           | Some fig \<Rightarrow> emit (PlotlyChart fig)),
      emit (SectionHeader ''Detailed Financial Data''),
      display_all_financial_data render financial_data]"

definition analysis_sections ::
  "'n numops \<Rightarrow> 'n renderer \<Rightarrow> 'n dataframe \<Rightarrow> 'n statement_bundle \<Rightarrow> string \<Rightarrow> ('n, unit) io" where
  "analysis_sections ops render hist_data financial_data selected_ticker =
     thenIO (analysis_body ops render hist_data financial_data selected_ticker)
            (actions_section render financial_data)"

definition main_analysis ::
  "'n numops \<Rightarrow> 'n renderer \<Rightarrow> 'n provider \<Rightarrow> string option \<Rightarrow> string \<Rightarrow> ('n, unit) io" where
  "main_analysis ops render yf selected_ticker selected_period =
     thenIO
       (case selected_ticker of
          None \<Rightarrow> emit (Info ''Please select an S&P 500 stock from the sidebar to begin analysis.'')
        | Some t \<Rightarrow>
            if t \<noteq> []
            then thenIO (emit (Spinner (''Analyzing '' @ t @ '' data...'')))
                (bindIO (get_stock_data yf t selected_period) (\<lambda>hist_data.
                 bindIO (get_financial_data yf t) (\<lambda>financial_data.
                   case (hist_data, financial_data) of
                     (Some h, Some f) \<Rightarrow> analysis_sections ops render h f t
                   | _ \<Rightarrow> emit (Error ''Unable to fetch data for the selected ticker. Please try selecting a different stock.''))))
            else emit (Info ''Please select an S&P 500 stock from the sidebar to begin analysis.''))
       (emit (Markdown ''---''))"

definition main ::
  "'n numops \<Rightarrow> 'n renderer \<Rightarrow> picker \<Rightarrow> string list \<Rightarrow> query_params \<Rightarrow> 'n provider \<Rightarrow> ('n, unit) io" where
  "main ops render pick SP500_TICKERS qget yf =
     bindIO (main_selection pick SP500_TICKERS qget) (\<lambda>(selected_ticker, selected_period).
       main_analysis ops render yf selected_ticker selected_period)"

section \<open>Vocabulary of the properties\<close>

text \<open>Presence of a trace in a cell of the grid.\<close>

definition cell_populated :: "'n figure \<Rightarrow> nat \<Rightarrow> nat \<Rightarrow> bool" where
  "cell_populated fig r c = (cell_traces fig r c \<noteq> [])"

text \<open>What a metric shows for a field: the printed number, the marker otherwise.\<close>

definition shown :: "'n info \<Rightarrow> string \<Rightarrow> ('n \<Rightarrow> string) \<Rightarrow> 'n pyval" where
  "shown info k f = (case info k of Some (PyNum n) \<Rightarrow> PyStr (f n) | _ \<Rightarrow> PyStr ''N/A'')"

definition metric_keys :: "string list" where
  "metric_keys = [''marketCap'', ''trailingPE'', ''currentPrice'', ''regularMarketPrice'',
     ''dividendYield'', ''dayHigh'', ''dayLow'', ''bookValue'', ''volume'', ''beta'']"

text \<open>A field that is absent or holds a number: what the provider documents.\<close>

definition numeric_or_absent :: "'n info \<Rightarrow> string \<Rightarrow> bool" where
  "numeric_or_absent info k =
     (case info k of None \<Rightarrow> True | Some (PyNum n) \<Rightarrow> True | Some v \<Rightarrow> False)"

text \<open>What a statement entry holds for the outcome of its sub-fetch.\<close>

definition statement_entry :: "pyerror + 'n dataframe option \<Rightarrow> 'n dataframe option" where
  "statement_entry outcome =
     (case outcome of Inr (Some df) \<Rightarrow> Some df | _ \<Rightarrow> Some empty_frame)"

text \<open>What one statement table shows: the table, or a placeholder.\<close>

definition table_shown ::
  "'n renderer \<Rightarrow> 'n dataframe option \<Rightarrow> string \<Rightarrow> string \<Rightarrow> 'n ui_event list" where
  "table_shown render data ttl warning_msg =
     (case data of
        Some df \<Rightarrow>
          if index df \<noteq> [] \<and> columns df \<noteq> []
          then (case render df of
                  None \<Rightarrow> [Dataframe df]
                | Some e \<Rightarrow> [Error (''Error displaying '' @ ttl @ '': '' @ exc_str e),
                             Warning (''Unable to display '' @ ttl @ '' data.'')])
          else [Warning warning_msg]
      | None \<Rightarrow> [Warning warning_msg])"

text \<open>The trace list of a grid cell that is filled under a condition.\<close>

definition cell_if :: "bool \<Rightarrow> nat \<Rightarrow> nat \<Rightarrow> 'n trace \<Rightarrow> (nat \<times> nat \<times> 'n trace) list" where
  "cell_if p r c tr = (if p then [(r, c, tr)] else [])"


text \<open>
  The six period codes, and when the URL gives no usable value: the period is absent or
  not a code, the ticker is present but not in the universe, or reading the parameters
  raises.
\<close>

definition period_codes :: "string list" where
  "period_codes = map snd period_options"

definition period_falls_back :: "query_params \<Rightarrow> bool" where
  "period_falls_back qget =
     (case qget ''ticker'' of
        Inl e \<Rightarrow> True
      | Inr tv \<Rightarrow> (case qget ''period'' of
                    Inl e \<Rightarrow> True
                  | Inr None \<Rightarrow> True
                  | Inr (Some v) \<Rightarrow> v \<notin> set period_codes))"

definition ticker_falls_back :: "string list \<Rightarrow> query_params \<Rightarrow> bool" where
  "ticker_falls_back universe qget =
     (case qget ''ticker'' of
        Inl e \<Rightarrow> True
      | Inr tv \<Rightarrow> (case qget ''period'' of
                    Inl e \<Rightarrow> True
                  | Inr pv \<Rightarrow> (case tv of None \<Rightarrow> False | Some v \<Rightarrow> v \<notin> set universe)))"

text \<open>The index the ticker selector starts at, for the ticker read from the URL.\<close>

definition initial_ticker_index :: "string list \<Rightarrow> string \<Rightarrow> nat" where
  "initial_ticker_index U ut =
     (case list_index U (if ut \<notin> set U then ''AAPL'' else ut) of Inr i \<Rightarrow> i | Inl e \<Rightarrow> 0)"

section \<open>Sample inputs\<close>

subsection \<open>A sample of the number operations: Python integers\<close>

text \<open>
  For concrete runs: how Python prints an \<^verbatim>\<open>int\<close> (below \<open>2 ^ 53\<close>, where the
  conversion to \<^verbatim>\<open>float\<close> is exact) under the three specifications.
\<close>

fun digits :: "nat \<Rightarrow> string" where
  "digits n =
     (if n < 10 then [''0123456789'' ! n]
      else digits (n div 10) @ [''0123456789'' ! (n mod 10)])"

declare digits.simps [simp del]

fun group3 :: "string \<Rightarrow> string" where
  "group3 (a # b # c # d # rest) = a # b # c # CHR '','' # group3 (d # rest)"
| "group3 s = s"

definition commas :: "string \<Rightarrow> string" where
  "commas s = rev (group3 (rev s))"

definition sign_of :: "int \<Rightarrow> string" where
  "sign_of i = (if i < 0 then ''-'' else [])"

definition int_format :: "fmtspec \<Rightarrow> int \<Rightarrow> string" where
  "int_format spec i =
     (case spec of
        Comma0f \<Rightarrow> sign_of i @ commas (digits (nat \<bar>i\<bar>))
      | Dot2f \<Rightarrow> sign_of i @ digits (nat \<bar>i\<bar>) @ ''.00''
      | Comma \<Rightarrow> sign_of i @ commas (digits (nat \<bar>i\<bar>)))"

definition int_numops :: "int numops" where
  "int_numops = \<lparr>format_num = int_format, mul100 = (\<lambda>i. i * 100), truthy_num = (\<lambda>i. i \<noteq> 0)\<rparr>"

subsection \<open>Sample data\<close>

text \<open>
  A small statement and a provider answer for concrete runs: the price history and
  the quarterly financials raise, the quarterly income statement is \<^verbatim>\<open>None\<close>, the
  actions table is empty.
\<close>

definition sample_frame :: "int dataframe" where
  "sample_frame = \<lparr>index = [''Total Revenue'', ''Net Income''], columns = [''2023'', ''2022''],
                   iat = (\<lambda>i j. PyNum (int (10 * i + j)))\<rparr>"

definition sample_stock :: "int stock" where
  "sample_stock =
     \<lparr>yf_history = (\<lambda>p. Inl (PyErr OtherException ''no price data'')),
      yf_financials = Inr (Some sample_frame),
      yf_quarterly_financials = Inl (PyErr OtherException ''timeout''),
      yf_income_stmt = Inr (Some sample_frame),
      yf_quarterly_income_stmt = Inr None,
      yf_balance_sheet = Inr (Some sample_frame),
      yf_quarterly_balance_sheet = Inr (Some sample_frame),
      yf_cashflow = Inr (Some sample_frame),
      yf_quarterly_cashflow = Inr (Some sample_frame),
      yf_actions = Inr (Some empty_frame),
      yf_info_hasattr = Inr (Map.empty(''longName'' \<mapsto> PyStr ''Apple Inc.'')),
      yf_info = Inr (Map.empty(''longName'' \<mapsto> PyStr ''Apple Inc.''))\<rparr>"

text \<open>The bundle built from \<open>sample_stock\<close>.\<close>

definition sample_bundle :: "int statement_bundle" where
  "sample_bundle =
     \<lparr>financials = Some sample_frame,
      quarterly_financials = Some empty_frame,
      income_stmt = Some sample_frame,
      quarterly_income_stmt = Some empty_frame,
      balance_sheet = Some sample_frame,
      quarterly_balance_sheet = Some sample_frame,
      cash_flow = Some sample_frame,
      quarterly_cash_flow = Some sample_frame,
      actions = Some empty_frame,
      info_dict = Map.empty(''longName'' \<mapsto> PyStr ''Apple Inc.'')\<rparr>"



text \<open>URL parameters given as a list of pairs; reading them never raises.\<close>

definition qp_of :: "(string \<times> string) list \<Rightarrow> query_params" where
  "qp_of kvs k = Inr (map_of kvs k)"

section \<open>Properties\<close>

subsection \<open>Sequencing\<close>

lemma bindE_Inr [simp]: "bindE (Inr x) f = f x"
  by (simp add: bindE_def)

lemma bindE_Inl [simp]: "bindE (Inl e) f = Inl e"
  by (simp add: bindE_def)

lemma bindIO_ok [simp]: "bindIO (es, Inr x) f = (es @ fst (f x), snd (f x))"
  by (simp add: bindIO_def split: prod.splits)

lemma bindIO_raise [simp]: "bindIO (es, Inl e) f = (es, Inl e)"
  by (simp add: bindIO_def)

lemma thenIO_ok [simp]: "thenIO (es, Inr x) k = (es @ fst k, snd k)"
  by (simp add: thenIO_def)

lemma thenIO_raise [simp]: "thenIO (es, Inl e) k = (es, Inl e)"
  by (simp add: thenIO_def)

lemma tryIO_ok [simp]: "tryIO (es, Inr x) h = (es, Inr x)"
  by (simp add: tryIO_def)

lemma tryIO_raise [simp]: "tryIO (es, Inl e) h = (es @ fst (h e), snd (h e))"
  by (simp add: tryIO_def split: prod.splits)

lemma st_metric_Inr [simp]: "st_metric c l (Inr v) = ([Metric c l v], Inr ())"
  by (simp add: st_metric_def liftE_def emit_def)

lemma st_metric_Inl [simp]: "st_metric c l (Inl e) = ([], Inl e)"
  by (simp add: st_metric_def liftE_def)

subsection \<open>Key metrics\<close>

lemma numeric_or_absent_cases:
  "numeric_or_absent info k \<longleftrightarrow> info k = None \<or> (\<exists>n. info k = Some (PyNum n))"
  by (auto simp: numeric_or_absent_def split: option.splits pyval.splits)

lemma single_field_value:
  "info ''marketCap'' = None \<Longrightarrow> market_cap_value ops info = Inr (PyStr ''N/A'')"
  "info ''trailingPE'' = None \<Longrightarrow> pe_ratio_value ops info = Inr (PyStr ''N/A'')"
  "info ''dividendYield'' = None \<Longrightarrow> dividend_yield_value ops info = Inr (PyStr ''N/A'')"
  "info ''bookValue'' = None \<Longrightarrow> book_value_value ops info = Inr (PyStr ''N/A'')"
  "info ''volume'' = None \<Longrightarrow> volume_value ops info = Inr (PyStr ''N/A'')"
  "info ''beta'' = None \<Longrightarrow> beta_value ops info = Inr (PyStr ''N/A'')"
  "info ''currentPrice'' = None \<Longrightarrow> info ''regularMarketPrice'' = None \<Longrightarrow>
     current_price_value ops info = Inr (PyStr ''N/A'')"
  by (simp_all add: market_cap_value_def pe_ratio_value_def dividend_yield_value_def
      book_value_value_def volume_value_def beta_value_def current_price_value_def
      info_get_def NA_def)

lemma numeric_field_value:
  "info ''marketCap'' = Some (PyNum n) \<Longrightarrow>
     market_cap_value ops info = Inr (PyStr (''$'' @ format_num ops Comma0f n))"
  "info ''trailingPE'' = Some (PyNum n) \<Longrightarrow>
     pe_ratio_value ops info = Inr (PyStr (format_num ops Dot2f n))"
  "info ''dividendYield'' = Some (PyNum n) \<Longrightarrow>
     dividend_yield_value ops info = Inr (PyStr (format_num ops Dot2f (mul100 ops n) @ ''%''))"
  "info ''bookValue'' = Some (PyNum n) \<Longrightarrow>
     book_value_value ops info = Inr (PyStr (''$'' @ format_num ops Dot2f n))"
  "info ''volume'' = Some (PyNum n) \<Longrightarrow>
     volume_value ops info = Inr (PyStr (format_num ops Comma n))"
  "info ''beta'' = Some (PyNum n) \<Longrightarrow>
     beta_value ops info = Inr (PyStr (format_num ops Dot2f n))"
  "info ''currentPrice'' = Some (PyNum n) \<Longrightarrow>
     current_price_value ops info = Inr (PyStr (''$'' @ format_num ops Dot2f n))"
  "info ''currentPrice'' = None \<Longrightarrow> info ''regularMarketPrice'' = Some (PyNum n) \<Longrightarrow>
     current_price_value ops info = Inr (PyStr (''$'' @ format_num ops Dot2f n))"
  by (simp_all add: market_cap_value_def pe_ratio_value_def dividend_yield_value_def
      book_value_value_def volume_value_def beta_value_def current_price_value_def
      info_get_def NA_def)

lemma numeric_value_shown:
  "numeric_or_absent info ''marketCap'' \<Longrightarrow> market_cap_value ops info =
     Inr (shown info ''marketCap'' (\<lambda>n. ''$'' @ format_num ops Comma0f n))"
  "numeric_or_absent info ''trailingPE'' \<Longrightarrow> pe_ratio_value ops info =
     Inr (shown info ''trailingPE'' (format_num ops Dot2f))"
  "numeric_or_absent info ''dividendYield'' \<Longrightarrow> dividend_yield_value ops info =
     Inr (shown info ''dividendYield'' (\<lambda>n. format_num ops Dot2f (mul100 ops n) @ ''%''))"
  "numeric_or_absent info ''bookValue'' \<Longrightarrow> book_value_value ops info =
     Inr (shown info ''bookValue'' (\<lambda>n. ''$'' @ format_num ops Dot2f n))"
  "numeric_or_absent info ''volume'' \<Longrightarrow> volume_value ops info =
     Inr (shown info ''volume'' (format_num ops Comma))"
  "numeric_or_absent info ''beta'' \<Longrightarrow> beta_value ops info =
     Inr (shown info ''beta'' (format_num ops Dot2f))"
  unfolding numeric_or_absent_cases
  by (auto simp: single_field_value numeric_field_value shown_def)

lemma current_price_shown:
  assumes "numeric_or_absent info ''currentPrice''" "numeric_or_absent info ''regularMarketPrice''"
  shows "current_price_value ops info =
     Inr (shown info (if info ''currentPrice'' = None then ''regularMarketPrice'' else ''currentPrice'')
            (\<lambda>n. ''$'' @ format_num ops Dot2f n))"
  using assms unfolding numeric_or_absent_cases
  by (auto simp: single_field_value numeric_field_value shown_def)

lemma day_range_absent:
  "info ''dayHigh'' = None \<or> info ''dayLow'' = None \<Longrightarrow>
     day_range_value ops info = Inr (PyStr ''N/A'')"
  by (auto simp: day_range_value_def info_get_def NA_def)

lemma day_range_shown:
  assumes "numeric_or_absent info ''dayHigh''" "numeric_or_absent info ''dayLow''"
  shows "day_range_value ops info =
     Inr (case (info ''dayLow'', info ''dayHigh'') of
            (Some (PyNum l), Some (PyNum h)) \<Rightarrow>
               PyStr (''$'' @ format_num ops Dot2f l @ '' - $'' @ format_num ops Dot2f h)
          | _ \<Rightarrow> PyStr ''N/A'')"
  using assms unfolding numeric_or_absent_cases
  by (auto simp: day_range_value_def info_get_def NA_def)

lemma display_key_metrics_all:
  assumes "market_cap_value ops info = Inr v1" "pe_ratio_value ops info = Inr v2"
    "current_price_value ops info = Inr v3" "dividend_yield_value ops info = Inr v4"
    "day_range_value ops info = Inr v5" "book_value_value ops info = Inr v6"
    "volume_value ops info = Inr v7" "beta_value ops info = Inr v8"
  shows "display_key_metrics ops info =
    ([Metric 1 ''Market Cap'' v1, Metric 1 ''P/E Ratio'' v2, Metric 2 ''Current Price'' v3,
      Metric 2 ''Dividend Yield'' v4, Metric 3 ''Day Range'' v5, Metric 3 ''Book Value'' v6,
      Metric 4 ''Volume'' v7, Metric 4 ''Beta'' v8], Inr ())"
  by (simp add: display_key_metrics_def assms returnIO_def)

lemma display_key_metrics_numeric:
  assumes h: "\<forall>k \<in> set metric_keys. numeric_or_absent info k"
  shows "display_key_metrics ops info =
    ([Metric 1 ''Market Cap'' (shown info ''marketCap'' (\<lambda>n. ''$'' @ format_num ops Comma0f n)),
      Metric 1 ''P/E Ratio'' (shown info ''trailingPE'' (format_num ops Dot2f)),
      Metric 2 ''Current Price''
        (shown info (if info ''currentPrice'' = None then ''regularMarketPrice'' else ''currentPrice'')
           (\<lambda>n. ''$'' @ format_num ops Dot2f n)),
      Metric 2 ''Dividend Yield''
        (shown info ''dividendYield'' (\<lambda>n. format_num ops Dot2f (mul100 ops n) @ ''%'')),
      Metric 3 ''Day Range''
        (case (info ''dayLow'', info ''dayHigh'') of
            (Some (PyNum l), Some (PyNum h)) \<Rightarrow>
               PyStr (''$'' @ format_num ops Dot2f l @ '' - $'' @ format_num ops Dot2f h)
          | _ \<Rightarrow> PyStr ''N/A''),
      Metric 3 ''Book Value'' (shown info ''bookValue'' (\<lambda>n. ''$'' @ format_num ops Dot2f n)),
      Metric 4 ''Volume'' (shown info ''volume'' (format_num ops Comma)),
      Metric 4 ''Beta'' (shown info ''beta'' (format_num ops Dot2f))], Inr ())"
proof -
  have k: "numeric_or_absent info ''marketCap''" "numeric_or_absent info ''trailingPE''"
    "numeric_or_absent info ''currentPrice''" "numeric_or_absent info ''regularMarketPrice''"
    "numeric_or_absent info ''dividendYield''" "numeric_or_absent info ''dayHigh''"
    "numeric_or_absent info ''dayLow''" "numeric_or_absent info ''bookValue''"
    "numeric_or_absent info ''volume''" "numeric_or_absent info ''beta''"
    using h by (simp_all add: metric_keys_def)
  show ?thesis
    by (rule display_key_metrics_all)
      (rule numeric_value_shown current_price_shown day_range_shown, (rule k)+)+
qed

lemma day_range_returns:
  assumes r: "day_range_value ops info = Inr v"
  shows "v = PyStr ''N/A''
          \<or> (\<exists>h l. info ''dayHigh'' = Some (PyNum h) \<and> info ''dayLow'' = Some (PyNum l)
                \<and> v = PyStr (''$'' @ format_num ops Dot2f l @ '' - $'' @ format_num ops Dot2f h))"
proof (cases "info ''dayHigh''")
  case None
  with r show ?thesis
    by (simp add: day_range_value_def info_get_def NA_def)
next
  case hi: (Some x)
  show ?thesis
  proof (cases "info ''dayLow''")
    case None
    with r show ?thesis
      by (simp add: day_range_value_def info_get_def NA_def)
  next
    case lo: (Some y)
    have g: "info_get info ''dayHigh'' NA = x" "info_get info ''dayLow'' NA = y"
      using hi lo by (simp_all add: info_get_def)
    show ?thesis
    proof (cases "py_ne_str x ''N/A'' \<and> py_ne_str y ''N/A''")
      case False
      with r show ?thesis
        unfolding day_range_value_def g Let_def by simp
    next
      case True
      with r have f: "bindE (py_format ops Dot2f y) (\<lambda>l.
           bindE (py_format ops Dot2f x) (\<lambda>h.
             Inr (PyStr (''$'' @ l @ '' - $'' @ h)))) = Inr v"
        unfolding day_range_value_def g Let_def by simp
      then obtain l where y: "y = PyNum l"
        by (cases y) simp_all
      from f y obtain h where x: "x = PyNum h"
        by (cases x) simp_all
      from f x y hi lo show ?thesis
        by simp
    qed
  qed
qed

text \<open>
  Claim C1, as stated, fails: with both fields present and \<open>dayHigh\<close> holding
  \<^verbatim>\<open>None\<close>, the f-string raises a TypeError instead of giving the range.
\<close>

theorem day_range_malformed_raises:
  "day_range_value int_numops (Map.empty(''dayHigh'' \<mapsto> PyNone, ''dayLow'' \<mapsto> PyNum 1)) =
     Inl (PyErr TypeError ''unsupported format string passed to NoneType.__format__'')"
  by (simp add: day_range_value_def info_get_def NA_def int_numops_def)

text \<open>
  Claim C1, amended. When either of \<open>dayHigh\<close> and \<open>dayLow\<close> is absent the day range
  is the marker \<open>N/A\<close>, whatever the other field holds. Whenever the formatter returns
  a value, this value is the marker or the string of the two bounds, low then high,
  each printed as a price, the latter only with both fields present. When the fields
  are absent or numbers, the formatter does return, the string of the two bounds
  exactly when both fields are present.
\<close>

theorem day_range_iff_both_present:
  "(info ''dayHigh'' = None \<or> info ''dayLow'' = None \<longrightarrow>
      day_range_value ops info = Inr (PyStr ''N/A''))
   \<and> (\<forall>v. day_range_value ops info = Inr v \<longrightarrow>
          v = PyStr ''N/A''
          \<or> (\<exists>h l. info ''dayHigh'' = Some (PyNum h) \<and> info ''dayLow'' = Some (PyNum l)
                \<and> v = PyStr (''$'' @ format_num ops Dot2f l @ '' - $'' @ format_num ops Dot2f h)))
   \<and> (numeric_or_absent info ''dayHigh'' \<and> numeric_or_absent info ''dayLow'' \<longrightarrow>
        (\<forall>h l. info ''dayHigh'' = Some (PyNum h) \<and> info ''dayLow'' = Some (PyNum l) \<longrightarrow>
           day_range_value ops info =
             Inr (PyStr (''$'' @ format_num ops Dot2f l @ '' - $'' @ format_num ops Dot2f h)))
        \<and> ((day_range_value ops info \<noteq> Inr (PyStr ''N/A'')) =
             (info ''dayHigh'' \<noteq> None \<and> info ''dayLow'' \<noteq> None)))"
proof (intro conjI)
  show "info ''dayHigh'' = None \<or> info ''dayLow'' = None \<longrightarrow>
      day_range_value ops info = Inr (PyStr ''N/A'')"
    using day_range_absent by blast
  show "\<forall>v. day_range_value ops info = Inr v \<longrightarrow>
          v = PyStr ''N/A''
          \<or> (\<exists>h l. info ''dayHigh'' = Some (PyNum h) \<and> info ''dayLow'' = Some (PyNum l)
                \<and> v = PyStr (''$'' @ format_num ops Dot2f l @ '' - $'' @ format_num ops Dot2f h))"
    using day_range_returns by blast
  show "numeric_or_absent info ''dayHigh'' \<and> numeric_or_absent info ''dayLow'' \<longrightarrow>
        (\<forall>h l. info ''dayHigh'' = Some (PyNum h) \<and> info ''dayLow'' = Some (PyNum l) \<longrightarrow>
           day_range_value ops info =
             Inr (PyStr (''$'' @ format_num ops Dot2f l @ '' - $'' @ format_num ops Dot2f h)))
        \<and> ((day_range_value ops info \<noteq> Inr (PyStr ''N/A'')) =
             (info ''dayHigh'' \<noteq> None \<and> info ''dayLow'' \<noteq> None))"
    by (auto simp: day_range_value_def info_get_def NA_def numeric_or_absent_cases Let_def)
qed

theorem day_range_iff_both_present_witness:
  "day_range_value int_numops (Map.empty(''dayHigh'' \<mapsto> PyNum 2, ''dayLow'' \<mapsto> PyNum 1))
     = Inr (PyStr ''$1.00 - $2.00'')
   \<and> day_range_value int_numops (Map.empty(''dayHigh'' \<mapsto> PyNum 2)) = Inr (PyStr ''N/A'')
   \<and> day_range_value int_numops (Map.empty(''dayLow'' \<mapsto> PyNum 1)) = Inr (PyStr ''N/A'')
   \<and> day_range_value int_numops (Map.empty :: int info) = Inr (PyStr ''N/A'')"
proof -
  note both = day_range_iff_both_present
    [of "Map.empty(''dayHigh'' \<mapsto> PyNum 2, ''dayLow'' \<mapsto> PyNum 1)" int_numops,
      THEN conjunct2, THEN conjunct2]
  have 1: "day_range_value int_numops
      (Map.empty(''dayHigh'' \<mapsto> PyNum 2, ''dayLow'' \<mapsto> PyNum 1)) = Inr (PyStr ''$1.00 - $2.00'')"
    using both
    by (simp add: numeric_or_absent_def int_numops_def int_format_def sign_of_def digits.simps)
  have 2: "day_range_value int_numops (Map.empty(''dayHigh'' \<mapsto> PyNum 2)) = Inr (PyStr ''N/A'')"
    using day_range_iff_both_present [of "Map.empty(''dayHigh'' \<mapsto> PyNum (2::int))" int_numops,
        THEN conjunct1]
    by simp
  have 3: "day_range_value int_numops (Map.empty(''dayLow'' \<mapsto> PyNum 1)) = Inr (PyStr ''N/A'')"
    using day_range_iff_both_present [of "Map.empty(''dayLow'' \<mapsto> PyNum (1::int))" int_numops,
        THEN conjunct1]
    by simp
  have 4: "day_range_value int_numops (Map.empty :: int info) = Inr (PyStr ''N/A'')"
    using day_range_iff_both_present [of "Map.empty :: int info" int_numops, THEN conjunct1]
    by simp
  from 1 2 3 4 show ?thesis by simp
qed

text \<open>
  Claim C2, as stated, fails: a field that is present and not a number is not turned
  into the marker. With \<open>marketCap\<close> holding \<^verbatim>\<open>None\<close> the first metric raises a
  TypeError, and neither it nor any of the seven metrics after it is drawn.
\<close>

theorem key_metrics_malformed_raises:
  "display_key_metrics int_numops (Map.empty(''marketCap'' \<mapsto> PyNone, ''beta'' \<mapsto> PyNum 1)) =
     ([], Inl (PyErr TypeError ''unsupported format string passed to NoneType.__format__''))"
  by (simp add: display_key_metrics_def market_cap_value_def info_get_def NA_def)

text \<open>
  Claim C2, amended. An absent field gives its metric the marker \<open>N/A\<close> and that metric
  does not raise. When every field of the panel is absent or a number, the panel draws
  all eight metrics and does not raise; each metric is the marker or the printed number
  of its own field, independently of the other fields.
\<close>

theorem key_metrics_absent_or_numeric:
  "(info ''marketCap'' = None \<longrightarrow> market_cap_value ops info = Inr (PyStr ''N/A''))
   \<and> (info ''trailingPE'' = None \<longrightarrow> pe_ratio_value ops info = Inr (PyStr ''N/A''))
   \<and> (info ''currentPrice'' = None \<and> info ''regularMarketPrice'' = None \<longrightarrow>
        current_price_value ops info = Inr (PyStr ''N/A''))
   \<and> (info ''dividendYield'' = None \<longrightarrow> dividend_yield_value ops info = Inr (PyStr ''N/A''))
   \<and> (info ''dayHigh'' = None \<or> info ''dayLow'' = None \<longrightarrow>
        day_range_value ops info = Inr (PyStr ''N/A''))
   \<and> (info ''bookValue'' = None \<longrightarrow> book_value_value ops info = Inr (PyStr ''N/A''))
   \<and> (info ''volume'' = None \<longrightarrow> volume_value ops info = Inr (PyStr ''N/A''))
   \<and> (info ''beta'' = None \<longrightarrow> beta_value ops info = Inr (PyStr ''N/A''))
   \<and> ((\<forall>k \<in> set metric_keys. numeric_or_absent info k) \<longrightarrow>
        display_key_metrics ops info =
          ([Metric 1 ''Market Cap'' (shown info ''marketCap'' (\<lambda>n. ''$'' @ format_num ops Comma0f n)),
            Metric 1 ''P/E Ratio'' (shown info ''trailingPE'' (format_num ops Dot2f)),
            Metric 2 ''Current Price''
              (shown info
                 (if info ''currentPrice'' = None then ''regularMarketPrice'' else ''currentPrice'')
                 (\<lambda>n. ''$'' @ format_num ops Dot2f n)),
            Metric 2 ''Dividend Yield''
              (shown info ''dividendYield'' (\<lambda>n. format_num ops Dot2f (mul100 ops n) @ ''%'')),
            Metric 3 ''Day Range''
              (case (info ''dayLow'', info ''dayHigh'') of
                  (Some (PyNum l), Some (PyNum h)) \<Rightarrow>
                     PyStr (''$'' @ format_num ops Dot2f l @ '' - $'' @ format_num ops Dot2f h)
                | _ \<Rightarrow> PyStr ''N/A''),
            Metric 3 ''Book Value'' (shown info ''bookValue'' (\<lambda>n. ''$'' @ format_num ops Dot2f n)),
            Metric 4 ''Volume'' (shown info ''volume'' (format_num ops Comma)),
            Metric 4 ''Beta'' (shown info ''beta'' (format_num ops Dot2f))], Inr ()))"
  by (intro conjI impI; (erule display_key_metrics_numeric | erule day_range_absent
        | simp add: single_field_value))

theorem key_metrics_absent_or_numeric_witness:
  "display_key_metrics int_numops
     (Map.empty(''marketCap'' \<mapsto> PyNum 1234, ''dayHigh'' \<mapsto> PyNum 2, ''dayLow'' \<mapsto> PyNum 1,
        ''dividendYield'' \<mapsto> PyNum 3)) =
     ([Metric 1 ''Market Cap'' (PyStr ''$1,234''), Metric 1 ''P/E Ratio'' (PyStr ''N/A''),
       Metric 2 ''Current Price'' (PyStr ''N/A''), Metric 2 ''Dividend Yield'' (PyStr ''300.00%''),
       Metric 3 ''Day Range'' (PyStr ''$1.00 - $2.00''), Metric 3 ''Book Value'' (PyStr ''N/A''),
       Metric 4 ''Volume'' (PyStr ''N/A''), Metric 4 ''Beta'' (PyStr ''N/A'')], Inr ())"
  using key_metrics_absent_or_numeric [of "Map.empty(''marketCap'' \<mapsto> PyNum 1234,
      ''dayHigh'' \<mapsto> PyNum 2, ''dayLow'' \<mapsto> PyNum 1, ''dividendYield'' \<mapsto> PyNum 3)" int_numops]
  by (simp add: metric_keys_def numeric_or_absent_def shown_def int_numops_def int_format_def
      sign_of_def commas_def digits.simps)

subsection \<open>Statement tables\<close>

lemma safe_display_dataframe_shown:
  "safe_display_dataframe render data ttl w = (table_shown render data ttl w, Inr ())"
  by (simp add: safe_display_dataframe_def table_shown_def st_dataframe_def df_empty_def
      emit_def raiseIO_def returnIO_def split: option.splits)

lemma emit_then [simp]: "thenIO (emit ev) k = (ev # fst k, snd k)"
  by (simp add: emit_def)

lemma display_all_shown:
  "display_all_financial_data render fd =
     ([SectionHeader ''Annual Reports'', Subheader ''Annual Financial Statements'']
      @ table_shown render (financials fd) ''Annual Financials''
          ''No annual financial data available.''
      @ [Markdown ''---'', Subheader ''Annual Income Statement'']
      @ table_shown render (income_stmt fd) ''Annual Income Statement''
          ''No Annual Income Statement data available.''
      @ [Markdown ''---'', Subheader ''Annual Balance Sheet'']
      @ table_shown render (balance_sheet fd) ''Annual Balance Sheet''
          ''No Annual Balance Sheet data available.''
      @ [Markdown ''---'', Subheader ''Annual Cash Flow'']
      @ table_shown render (cash_flow fd) ''Annual Cash Flow''
          ''No Annual Cash Flow data available.''
      @ [Markdown ''---'', SectionHeader ''Quarterly Reports'',
         Subheader ''Quarterly Financial Statements'']
      @ table_shown render (quarterly_financials fd) ''Quarterly Financials''
          ''No quarterly financial data available.''
      @ [Markdown ''---'', Subheader ''Quarterly Income Statement'']
      @ table_shown render (quarterly_income_stmt fd) ''Quarterly Income Statement''
          ''No Quarterly Income Statement data available.''
      @ [Markdown ''---'', Subheader ''Quarterly Balance Sheet'']
      @ table_shown render (quarterly_balance_sheet fd) ''Quarterly Balance Sheet''
          ''No Quarterly Balance Sheet data available.''
      @ [Markdown ''---'', Subheader ''Quarterly Cash Flow'']
      @ table_shown render (quarterly_cash_flow fd) ''Quarterly Cash Flow''
          ''No Quarterly Cash Flow data available.'',
      Inr ())"
  by (simp add: display_all_financial_data_def safe_display_dataframe_shown returnIO_def)

text \<open>
  Claim C3. For each of the eight statement tables, the table is drawn when it is
  present with at least one row and one column and \<^verbatim>\<open>st.dataframe\<close> does not
  raise; an empty or missing table gives the warning placeholder of that table; an
  exception of \<^verbatim>\<open>st.dataframe\<close> is caught and gives an error message and the
  "Unable to display" warning for that table. Neither function raises, so the headers
  and the other tables of the page are drawn whatever one table does.
\<close>

theorem table_display_isolated:
  "safe_display_dataframe render data ttl w = (table_shown render data ttl w, Inr ())
   \<and> display_all_financial_data render fd =
     ([SectionHeader ''Annual Reports'', Subheader ''Annual Financial Statements'']
      @ table_shown render (financials fd) ''Annual Financials''
          ''No annual financial data available.''
      @ [Markdown ''---'', Subheader ''Annual Income Statement'']
      @ table_shown render (income_stmt fd) ''Annual Income Statement''
          ''No Annual Income Statement data available.''
      @ [Markdown ''---'', Subheader ''Annual Balance Sheet'']
      @ table_shown render (balance_sheet fd) ''Annual Balance Sheet''
          ''No Annual Balance Sheet data available.''
      @ [Markdown ''---'', Subheader ''Annual Cash Flow'']
      @ table_shown render (cash_flow fd) ''Annual Cash Flow''
          ''No Annual Cash Flow data available.''
      @ [Markdown ''---'', SectionHeader ''Quarterly Reports'',
         Subheader ''Quarterly Financial Statements'']
      @ table_shown render (quarterly_financials fd) ''Quarterly Financials''
          ''No quarterly financial data available.''
      @ [Markdown ''---'', Subheader ''Quarterly Income Statement'']
      @ table_shown render (quarterly_income_stmt fd) ''Quarterly Income Statement''
          ''No Quarterly Income Statement data available.''
      @ [Markdown ''---'', Subheader ''Quarterly Balance Sheet'']
      @ table_shown render (quarterly_balance_sheet fd) ''Quarterly Balance Sheet''
          ''No Quarterly Balance Sheet data available.''
      @ [Markdown ''---'', Subheader ''Quarterly Cash Flow'']
      @ table_shown render (quarterly_cash_flow fd) ''Quarterly Cash Flow''
          ''No Quarterly Cash Flow data available.'',
      Inr ())"
  by (simp add: safe_display_dataframe_shown display_all_shown)

subsection \<open>Financial chart\<close>

lemma positions_nonempty: "l \<in> set labels \<Longrightarrow> positions labels l \<noteq> []"
  by (auto simp: positions_def filter_empty_conv in_set_conv_nth)

lemma df_loc_ok: "l \<in> set (index df) \<Longrightarrow> \<exists>x y. df_loc df l = Inr (x, y)"
  using positions_nonempty [of l "index df"]
  by (auto simp: df_loc_def split: list.splits)

lemma add_line_item_cell:
  "\<exists>x y. add_line_item fig (Some df) l name r c =
     Inr (fig\<lparr>traces := traces fig @ cell_if (l \<in> set (index df)) r c (Bar x y name)\<rparr>)"
proof (cases "l \<in> set (index df)")
  case True
  then obtain x y where "df_loc df l = Inr (x, y)"
    using df_loc_ok by blast
  with True have "add_line_item fig (Some df) l name r c =
     Inr (fig\<lparr>traces := traces fig @ cell_if (l \<in> set (index df)) r c (Bar x y name)\<rparr>)"
    by (simp add: add_line_item_def attr_index_def attr_loc_def add_trace_def cell_if_def)
  then show ?thesis by blast
next
  case False
  then show ?thesis
    by (simp add: add_line_item_def attr_index_def cell_if_def)
qed

lemma plot_financial_metrics_traces:
  assumes a: "income_stmt b = Some a" and q: "quarterly_income_stmt b = Some q"
    and ne: "\<not> df_empty a"
  shows "\<exists>x1 y1 x2 y2 x3 y3 x4 y4. plot_financial_metrics b t = Inr (Some
     \<lparr>grid_rows = 2, grid_cols = 2,
      subplot_titles = [''Annual Revenue Trend'', ''Net Income Trend'',
                        ''Quarterly Revenue'', ''Quarterly Net Income''],
      traces = cell_if (''Total Revenue'' \<in> set (index a)) 1 1 (Bar x1 y1 ''Annual Revenue'')
             @ cell_if (''Net Income'' \<in> set (index a)) 1 2 (Bar x2 y2 ''Annual Net Income'')
             @ cell_if (\<not> df_empty q \<and> ''Total Revenue'' \<in> set (index q)) 2 1 (Bar x3 y3 ''Quarterly Revenue'')
             @ cell_if (\<not> df_empty q \<and> ''Net Income'' \<in> set (index q)) 2 2 (Bar x4 y4 ''Quarterly Net Income''),
      layout_title = t @ '' Financial Performance'', layout_height = 600\<rparr>)"
proof -
  let ?f0 = "make_subplots 2 2 [''Annual Revenue Trend'', ''Net Income Trend'',
                                    ''Quarterly Revenue'', ''Quarterly Net Income''] :: 'a figure"
  obtain x1 y1 where 1: "add_line_item ?f0 (Some a) ''Total Revenue'' ''Annual Revenue'' 1 1 =
     Inr (?f0\<lparr>traces := traces ?f0 @ cell_if (''Total Revenue'' \<in> set (index a)) 1 1 (Bar x1 y1 ''Annual Revenue'')\<rparr>)"
    (is "_ = Inr ?f1")
    using add_line_item_cell by blast
  obtain x2 y2 where 2: "add_line_item ?f1 (Some a) ''Net Income'' ''Annual Net Income'' 1 2 =
     Inr (?f1\<lparr>traces := traces ?f1 @ cell_if (''Net Income'' \<in> set (index a)) 1 2 (Bar x2 y2 ''Annual Net Income'')\<rparr>)"
    (is "_ = Inr ?f2")
    using add_line_item_cell by blast
  obtain x3 y3 where 3: "add_line_item ?f2 (Some q) ''Total Revenue'' ''Quarterly Revenue'' 2 1 =
     Inr (?f2\<lparr>traces := traces ?f2 @ cell_if (''Total Revenue'' \<in> set (index q)) 2 1 (Bar x3 y3 ''Quarterly Revenue'')\<rparr>)"
    (is "_ = Inr ?f3")
    using add_line_item_cell by blast
  obtain x4 y4 where 4: "add_line_item ?f3 (Some q) ''Net Income'' ''Quarterly Net Income'' 2 2 =
     Inr (?f3\<lparr>traces := traces ?f3 @ cell_if (''Net Income'' \<in> set (index q)) 2 2 (Bar x4 y4 ''Quarterly Net Income'')\<rparr>)"
    using add_line_item_cell by blast
  have "plot_financial_metrics b t = Inr (Some
     \<lparr>grid_rows = 2, grid_cols = 2,
      subplot_titles = [''Annual Revenue Trend'', ''Net Income Trend'',
                        ''Quarterly Revenue'', ''Quarterly Net Income''],
      traces = cell_if (''Total Revenue'' \<in> set (index a)) 1 1 (Bar x1 y1 ''Annual Revenue'')
             @ cell_if (''Net Income'' \<in> set (index a)) 1 2 (Bar x2 y2 ''Annual Net Income'')
             @ cell_if (\<not> df_empty q \<and> ''Total Revenue'' \<in> set (index q)) 2 1 (Bar x3 y3 ''Quarterly Revenue'')
             @ cell_if (\<not> df_empty q \<and> ''Net Income'' \<in> set (index q)) 2 2 (Bar x4 y4 ''Quarterly Net Income''),
      layout_title = t @ '' Financial Performance'', layout_height = 600\<rparr>)"
    using ne 1 2 3 4
    by (simp add: plot_financial_metrics_def a q attr_empty_def Let_def)
      (simp add: make_subplots_def cell_if_def)
  then show ?thesis by blast
qed


lemma cell_traces_cell_if [simp]:
  "cell_traces (fig\<lparr>traces := ts\<rparr>) r c =
     map (\<lambda>(r', c', t). t) (filter (\<lambda>(r', c', t). r' = r \<and> c' = c) ts)"
  by (simp add: cell_traces_def)

text \<open>
  Claim C4. On a bundle whose income statements are tables, the chart is
  \<^verbatim>\<open>None\<close> exactly when the annual income statement is empty. Otherwise it is a
  2 by 2 grid in which the annual cells hold a trace exactly when "Total Revenue",
  respectively "Net Income", is a row label of the annual statement, and the quarterly
  cells exactly when the quarterly statement is non-empty and has that row label; no
  other cell holds a trace and a missing line item raises nothing.
\<close>

theorem financials_chart_grid:
  assumes a: "income_stmt b = Some a" and q: "quarterly_income_stmt b = Some q"
  shows "(plot_financial_metrics b t = Inr None) = df_empty a
    \<and> (\<not> df_empty a \<longrightarrow>
        (\<exists>fig. plot_financial_metrics b t = Inr (Some fig)
           \<and> grid_rows fig = 2 \<and> grid_cols fig = 2
           \<and> cell_populated fig 1 1 = (''Total Revenue'' \<in> set (index a))
           \<and> cell_populated fig 1 2 = (''Net Income'' \<in> set (index a))
           \<and> cell_populated fig 2 1 = (\<not> df_empty q \<and> ''Total Revenue'' \<in> set (index q))
           \<and> cell_populated fig 2 2 = (\<not> df_empty q \<and> ''Net Income'' \<in> set (index q))
           \<and> (\<forall>r c. cell_populated fig r c \<longrightarrow> r \<in> {1, 2} \<and> c \<in> {1, 2})))"
proof (cases "df_empty a")
  case True
  then show ?thesis
    by (simp add: plot_financial_metrics_def a attr_empty_def)
next
  case False
  from plot_financial_metrics_traces [OF a q False, of t]
  obtain x1 y1 x2 y2 x3 y3 x4 y4 where f: "plot_financial_metrics b t = Inr (Some
     \<lparr>grid_rows = 2, grid_cols = 2,
      subplot_titles = [''Annual Revenue Trend'', ''Net Income Trend'',
                        ''Quarterly Revenue'', ''Quarterly Net Income''],
      traces = cell_if (''Total Revenue'' \<in> set (index a)) 1 1 (Bar x1 y1 ''Annual Revenue'')
             @ cell_if (''Net Income'' \<in> set (index a)) 1 2 (Bar x2 y2 ''Annual Net Income'')
             @ cell_if (\<not> df_empty q \<and> ''Total Revenue'' \<in> set (index q)) 2 1 (Bar x3 y3 ''Quarterly Revenue'')
             @ cell_if (\<not> df_empty q \<and> ''Net Income'' \<in> set (index q)) 2 2 (Bar x4 y4 ''Quarterly Net Income''),
      layout_title = t @ '' Financial Performance'', layout_height = 600\<rparr>)"
    by blast
  show ?thesis
    unfolding f using False
    by (simp add: cell_populated_def cell_traces_def cell_if_def)
qed

theorem financials_chart_grid_witness:
  "plot_financial_metrics sample_bundle ''AAPL'' \<noteq> Inr None
   \<and> (\<exists>fig. plot_financial_metrics sample_bundle ''AAPL'' = Inr (Some fig)
         \<and> cell_populated fig 1 1 \<and> cell_populated fig 1 2
         \<and> \<not> cell_populated fig 2 1 \<and> \<not> cell_populated fig 2 2)
   \<and> plot_financial_metrics (sample_bundle\<lparr>income_stmt := Some empty_frame\<rparr>) ''AAPL'' = Inr None"
proof -
  have a: "income_stmt sample_bundle = Some sample_frame"
    and q: "quarterly_income_stmt sample_bundle = Some empty_frame"
    by (simp_all add: sample_bundle_def)
  have a': "income_stmt (sample_bundle\<lparr>income_stmt := Some empty_frame\<rparr>) = Some empty_frame"
    and q': "quarterly_income_stmt (sample_bundle\<lparr>income_stmt := Some empty_frame\<rparr>) =
      Some empty_frame"
    by (simp_all add: sample_bundle_def)
  have f: "\<not> df_empty sample_frame" "df_empty (empty_frame :: int dataframe)"
    "''Total Revenue'' \<in> set (index sample_frame)" "''Net Income'' \<in> set (index sample_frame)"
    by (simp_all add: sample_frame_def empty_frame_def df_empty_def)
  from financials_chart_grid [OF a q, of "''AAPL''"] f
  have 1: "plot_financial_metrics sample_bundle ''AAPL'' \<noteq> Inr None"
    by simp
  from financials_chart_grid [OF a q, of "''AAPL''"] f
  obtain fig where "plot_financial_metrics sample_bundle ''AAPL'' = Inr (Some fig)"
    "cell_populated fig 1 1" "cell_populated fig 1 2"
    "\<not> cell_populated fig 2 1" "\<not> cell_populated fig 2 2"
    by auto
  then have 2: "\<exists>fig. plot_financial_metrics sample_bundle ''AAPL'' = Inr (Some fig)
         \<and> cell_populated fig 1 1 \<and> cell_populated fig 1 2
         \<and> \<not> cell_populated fig 2 1 \<and> \<not> cell_populated fig 2 2"
    by blast
  from financials_chart_grid [OF a' q', of "''AAPL''"] f
  have 3: "plot_financial_metrics (sample_bundle\<lparr>income_stmt := Some empty_frame\<rparr>) ''AAPL'' =
      Inr None"
    by simp
  from 1 2 3 show ?thesis by blast
qed

subsection \<open>Statement bundle\<close>

lemma safe_get_data_entry: "safe_get_data func (Some empty_frame) = statement_entry func"
  by (simp add: safe_get_data_def statement_entry_def split: sum.splits option.splits)

lemma safe_get_data_table: "\<exists>df. safe_get_data func (Some empty_frame) = Some df"
  by (simp add: safe_get_data_def split: sum.splits)

lemma build_bundle_ok:
  "stock_info stock = Inr i \<Longrightarrow> build_bundle stock = Inr
        \<lparr>financials = statement_entry (yf_financials stock),
         quarterly_financials = statement_entry (yf_quarterly_financials stock),
         income_stmt = statement_entry (yf_income_stmt stock),
         quarterly_income_stmt = statement_entry (yf_quarterly_income_stmt stock),
         balance_sheet = statement_entry (yf_balance_sheet stock),
         quarterly_balance_sheet = statement_entry (yf_quarterly_balance_sheet stock),
         cash_flow = statement_entry (yf_cashflow stock),
         quarterly_cash_flow = statement_entry (yf_quarterly_cashflow stock),
         actions = statement_entry (yf_actions stock),
         info_dict = i\<rparr>"
  by (simp add: build_bundle_def safe_get_data_entry)

lemma build_bundle_raise: "stock_info stock = Inl e \<Longrightarrow> build_bundle stock = Inl e"
  by (simp add: build_bundle_def)

text \<open>
  Claim C5. When the provider object is built and its metadata read, the bundle is
  returned and each statement entry depends on the outcome of its own sub-fetch only:
  the table when there is one, the empty table when the sub-fetch raised or returned
  \<^verbatim>\<open>None\<close>. When building the provider object raises, or reading the metadata
  raises, the result is \<^verbatim>\<open>None\<close> and an error message is shown.
\<close>

theorem bundle_per_statement_isolation:
  "(\<forall>stock i. yf ticker = Inr stock \<and> stock_info stock = Inr i \<longrightarrow>
      get_financial_data yf ticker = ([], Inr (Some
        \<lparr>financials = statement_entry (yf_financials stock),
         quarterly_financials = statement_entry (yf_quarterly_financials stock),
         income_stmt = statement_entry (yf_income_stmt stock),
         quarterly_income_stmt = statement_entry (yf_quarterly_income_stmt stock),
         balance_sheet = statement_entry (yf_balance_sheet stock),
         quarterly_balance_sheet = statement_entry (yf_quarterly_balance_sheet stock),
         cash_flow = statement_entry (yf_cashflow stock),
         quarterly_cash_flow = statement_entry (yf_quarterly_cashflow stock),
         actions = statement_entry (yf_actions stock),
         info_dict = i\<rparr>)))
   \<and> (\<forall>e. yf ticker = Inl e \<longrightarrow>
        get_financial_data yf ticker =
          ([Error (''Error fetching financial data: '' @ exc_str e)], Inr None))
   \<and> (\<forall>stock e. yf ticker = Inr stock \<and> stock_info stock = Inl e \<longrightarrow>
        get_financial_data yf ticker =
          ([Error (''Error fetching financial data: '' @ exc_str e)], Inr None))"
  by (auto simp: get_financial_data_def liftE_def build_bundle_ok build_bundle_raise
      emit_def returnIO_def)

theorem bundle_per_statement_isolation_witness:
  "get_financial_data (\<lambda>t. Inr sample_stock) ''AAPL'' = ([], Inr (Some
        \<lparr>financials = Some sample_frame,
         quarterly_financials = Some empty_frame,
         income_stmt = Some sample_frame,
         quarterly_income_stmt = Some empty_frame,
         balance_sheet = Some sample_frame,
         quarterly_balance_sheet = Some sample_frame,
         cash_flow = Some sample_frame,
         quarterly_cash_flow = Some sample_frame,
         actions = Some empty_frame,
         info_dict = Map.empty(''longName'' \<mapsto> PyStr ''Apple Inc.'')\<rparr>))
   \<and> get_financial_data (\<lambda>t. Inl (PyErr ValueError ''bad ticker'') :: pyerror + int stock) ''ZZZZ'' =
       ([Error ''Error fetching financial data: bad ticker''], Inr None)"
  using bundle_per_statement_isolation [of "\<lambda>t. Inr sample_stock" "''AAPL''"]
    bundle_per_statement_isolation [of "\<lambda>t. Inl (PyErr ValueError ''bad ticker'') :: pyerror + int stock" "''ZZZZ''"]
  by (simp add: sample_stock_def stock_info_def statement_entry_def exc_str_def)

lemma statement_entry_table: "\<exists>df. statement_entry outcome = Some df"
  by (simp add: statement_entry_def split: sum.splits option.splits)

lemma attr_empty_entry: "\<exists>r. attr_empty (statement_entry outcome) = Inr r"
  using statement_entry_table [of outcome] by (auto simp: attr_empty_def)

lemma get_financial_data_Some:
  assumes "get_financial_data yf ticker = (es, Inr (Some b))"
  shows "\<exists>(stock :: 'n stock) i. b =
        \<lparr>financials = statement_entry (yf_financials stock),
         quarterly_financials = statement_entry (yf_quarterly_financials stock),
         income_stmt = statement_entry (yf_income_stmt stock),
         quarterly_income_stmt = statement_entry (yf_quarterly_income_stmt stock),
         balance_sheet = statement_entry (yf_balance_sheet stock),
         quarterly_balance_sheet = statement_entry (yf_quarterly_balance_sheet stock),
         cash_flow = statement_entry (yf_cashflow stock),
         quarterly_cash_flow = statement_entry (yf_quarterly_cashflow stock),
         actions = statement_entry (yf_actions stock),
         info_dict = i\<rparr>"
proof (cases "yf ticker")
  case (Inl e)
  with assms show ?thesis
    by (simp add: get_financial_data_def liftE_def emit_def returnIO_def)
next
  case (Inr stock)
  show ?thesis
  proof (cases "stock_info stock")
    case (Inl e)
    with Inr assms show ?thesis
      by (simp add: get_financial_data_def liftE_def emit_def returnIO_def build_bundle_raise)
  next
    case i: (Inr i)
    with Inr assms have "b =
        \<lparr>financials = statement_entry (yf_financials stock),
         quarterly_financials = statement_entry (yf_quarterly_financials stock),
         income_stmt = statement_entry (yf_income_stmt stock),
         quarterly_income_stmt = statement_entry (yf_quarterly_income_stmt stock),
         balance_sheet = statement_entry (yf_balance_sheet stock),
         quarterly_balance_sheet = statement_entry (yf_quarterly_balance_sheet stock),
         cash_flow = statement_entry (yf_cashflow stock),
         quarterly_cash_flow = statement_entry (yf_quarterly_cashflow stock),
         actions = statement_entry (yf_actions stock),
         info_dict = i\<rparr>"
      by (simp add: get_financial_data_def liftE_def build_bundle_ok)
    then show ?thesis by blast
  qed
qed

text \<open>
  Claim C10. In every bundle that \<^verbatim>\<open>get_financial_data\<close> returns, each of the
  nine statement entries is a table, never \<^verbatim>\<open>None\<close>, so reading
  \<^verbatim>\<open>.empty\<close> on it raises nothing: \<^verbatim>\<open>safe_get_data\<close> maps an exception and
  a \<^verbatim>\<open>None\<close> result to the empty table and keeps a table.
\<close>

theorem bundle_entries_never_null:
  "(get_financial_data yf ticker = (es, Inr (Some (b :: 'n statement_bundle))) \<longrightarrow>
      (\<exists>df. financials b = Some df) \<and> (\<exists>df. quarterly_financials b = Some df)
    \<and> (\<exists>df. income_stmt b = Some df) \<and> (\<exists>df. quarterly_income_stmt b = Some df)
    \<and> (\<exists>df. balance_sheet b = Some df) \<and> (\<exists>df. quarterly_balance_sheet b = Some df)
    \<and> (\<exists>df. cash_flow b = Some df) \<and> (\<exists>df. quarterly_cash_flow b = Some df)
    \<and> (\<exists>df. actions b = Some df)
    \<and> (\<forall>x \<in> {financials b, quarterly_financials b, income_stmt b, quarterly_income_stmt b,
              balance_sheet b, quarterly_balance_sheet b, cash_flow b, quarterly_cash_flow b,
              actions b}. \<exists>r. attr_empty x = Inr r))
   \<and> safe_get_data (Inl e) (Some empty_frame) = Some (empty_frame :: 'n dataframe)
   \<and> safe_get_data (Inr None) (Some empty_frame) = Some (empty_frame :: 'n dataframe)
   \<and> safe_get_data (Inr (Some df)) (Some empty_frame) = Some (df :: 'n dataframe)"
proof -
  have "get_financial_data yf ticker = (es, Inr (Some b)) \<longrightarrow>
      (\<exists>df. financials b = Some df) \<and> (\<exists>df. quarterly_financials b = Some df)
    \<and> (\<exists>df. income_stmt b = Some df) \<and> (\<exists>df. quarterly_income_stmt b = Some df)
    \<and> (\<exists>df. balance_sheet b = Some df) \<and> (\<exists>df. quarterly_balance_sheet b = Some df)
    \<and> (\<exists>df. cash_flow b = Some df) \<and> (\<exists>df. quarterly_cash_flow b = Some df)
    \<and> (\<exists>df. actions b = Some df)
    \<and> (\<forall>x \<in> {financials b, quarterly_financials b, income_stmt b, quarterly_income_stmt b,
              balance_sheet b, quarterly_balance_sheet b, cash_flow b, quarterly_cash_flow b,
              actions b}. \<exists>r. attr_empty x = Inr r)"
  proof
    assume "get_financial_data yf ticker = (es, Inr (Some b))"
    then obtain stock :: "'n stock" and i where b: "b =
        \<lparr>financials = statement_entry (yf_financials stock),
         quarterly_financials = statement_entry (yf_quarterly_financials stock),
         income_stmt = statement_entry (yf_income_stmt stock),
         quarterly_income_stmt = statement_entry (yf_quarterly_income_stmt stock),
         balance_sheet = statement_entry (yf_balance_sheet stock),
         quarterly_balance_sheet = statement_entry (yf_quarterly_balance_sheet stock),
         cash_flow = statement_entry (yf_cashflow stock),
         quarterly_cash_flow = statement_entry (yf_quarterly_cashflow stock),
         actions = statement_entry (yf_actions stock),
         info_dict = i\<rparr>"
      using get_financial_data_Some by blast
    show "(\<exists>df. financials b = Some df) \<and> (\<exists>df. quarterly_financials b = Some df)
    \<and> (\<exists>df. income_stmt b = Some df) \<and> (\<exists>df. quarterly_income_stmt b = Some df)
    \<and> (\<exists>df. balance_sheet b = Some df) \<and> (\<exists>df. quarterly_balance_sheet b = Some df)
    \<and> (\<exists>df. cash_flow b = Some df) \<and> (\<exists>df. quarterly_cash_flow b = Some df)
    \<and> (\<exists>df. actions b = Some df)
    \<and> (\<forall>x \<in> {financials b, quarterly_financials b, income_stmt b, quarterly_income_stmt b,
              balance_sheet b, quarterly_balance_sheet b, cash_flow b, quarterly_cash_flow b,
              actions b}. \<exists>r. attr_empty x = Inr r)"
      unfolding b by (simp add: statement_entry_table attr_empty_entry)
  qed
  then show ?thesis
    by (simp add: safe_get_data_def)
qed

lemma sample_bundle_eval:
  "get_financial_data (\<lambda>t. Inr sample_stock) ''AAPL'' = ([], Inr (Some
        \<lparr>financials = Some sample_frame,
         quarterly_financials = Some empty_frame,
         income_stmt = Some sample_frame,
         quarterly_income_stmt = Some empty_frame,
         balance_sheet = Some sample_frame,
         quarterly_balance_sheet = Some sample_frame,
         cash_flow = Some sample_frame,
         quarterly_cash_flow = Some sample_frame,
         actions = Some empty_frame,
         info_dict = Map.empty(''longName'' \<mapsto> PyStr ''Apple Inc.'')\<rparr>))"
  by (simp add: get_financial_data_def liftE_def build_bundle_def sample_stock_def
      stock_info_def safe_get_data_def Let_def)

theorem bundle_entries_never_null_witness:
  "get_financial_data (\<lambda>t. Inr sample_stock) ''AAPL'' = ([], Inr (Some
        \<lparr>financials = Some sample_frame,
         quarterly_financials = Some empty_frame,
         income_stmt = Some sample_frame,
         quarterly_income_stmt = Some empty_frame,
         balance_sheet = Some sample_frame,
         quarterly_balance_sheet = Some sample_frame,
         cash_flow = Some sample_frame,
         quarterly_cash_flow = Some sample_frame,
         actions = Some empty_frame,
         info_dict = Map.empty(''longName'' \<mapsto> PyStr ''Apple Inc.'')\<rparr>))
   \<and> attr_empty (Some (empty_frame :: int dataframe)) = Inr True
   \<and> attr_empty (Some sample_frame) = Inr False"
  using sample_bundle_eval
    bundle_entries_never_null [of "\<lambda>t. Inr sample_stock" "''AAPL''" "[]"
        "\<lparr>financials = Some sample_frame,
         quarterly_financials = Some empty_frame,
         income_stmt = Some sample_frame,
         quarterly_income_stmt = Some empty_frame,
         balance_sheet = Some sample_frame,
         quarterly_balance_sheet = Some sample_frame,
         cash_flow = Some sample_frame,
         quarterly_cash_flow = Some sample_frame,
         actions = Some empty_frame,
         info_dict = Map.empty(''longName'' \<mapsto> PyStr ''Apple Inc.'')\<rparr>"]
  by (simp add: attr_empty_def df_empty_def empty_frame_def sample_frame_def)

subsection \<open>Price history failure\<close>

lemma get_stock_data_raise:
  assumes "yf t = Inl e \<or> (\<exists>stock. yf t = Inr stock \<and> yf_history stock p = Inl e)"
  shows "get_stock_data yf t p = ([Error (''Error fetching data: '' @ exc_str e)], Inr None)"
  using assms by (auto simp: get_stock_data_def liftE_def returnIO_def)

lemma get_financial_data_cases:
  "(\<exists>b. get_financial_data yf t = ([], Inr (Some b))) \<or>
   (\<exists>e. get_financial_data yf t =
          ([Error (''Error fetching financial data: '' @ exc_str e)], Inr None))"
proof (cases "bindE (yf t) (\<lambda>stock. bindE (build_bundle stock) (\<lambda>b. Inr (Some b)))")
  case (Inl e)
  then have "get_financial_data yf t =
          ([Error (''Error fetching financial data: '' @ exc_str e)], Inr None)"
    by (simp add: get_financial_data_def liftE_def returnIO_def)
  then show ?thesis by blast
next
  case (Inr r)
  then obtain b where "r = Some b"
    by (cases "yf t"; simp) (auto simp: bindE_def split: sum.splits)
  with Inr show ?thesis
    by (simp add: get_financial_data_def liftE_def)
qed

text \<open>
  Claim C7, amended. When the price history fetch raises, the page shows the fetch
  error, whatever the statement fetch reports, and the message that the data could not
  be fetched, then the footer: no section of the analysis is drawn, and nothing raises.
\<close>

theorem price_failure_suppresses_analysis:
  assumes "yf t = Inl e \<or> (\<exists>stock. yf t = Inr stock \<and> yf_history stock p = Inl e)"
    and "t \<noteq> []"
  shows "main_analysis ops render yf (Some t) p =
     ([Spinner (''Analyzing '' @ t @ '' data...''),
       Error (''Error fetching data: '' @ exc_str e)]
      @ fst (get_financial_data yf t)
      @ [Error ''Unable to fetch data for the selected ticker. Please try selecting a different stock.'',
         Markdown ''---''],
      Inr ())
    \<and> (fst (get_financial_data yf t) = [] \<or>
        (\<exists>e'. fst (get_financial_data yf t) =
               [Error (''Error fetching financial data: '' @ exc_str e')]))"
proof -
  have h: "get_stock_data yf t p = ([Error (''Error fetching data: '' @ exc_str e)], Inr None)"
    using assms(1) by (rule get_stock_data_raise)
  from get_financial_data_cases [of yf t] show ?thesis
  proof
    assume "\<exists>b. get_financial_data yf t = ([], Inr (Some b))"
    then obtain b where b: "get_financial_data yf t = ([], Inr (Some b))" by blast
    show ?thesis
      using assms(2) by (simp add: main_analysis_def h b) (simp add: emit_def)
  next
    assume "\<exists>e. get_financial_data yf t =
          ([Error (''Error fetching financial data: '' @ exc_str e)], Inr None)"
    then obtain e' where b: "get_financial_data yf t =
          ([Error (''Error fetching financial data: '' @ exc_str e')], Inr None)" by blast
    show ?thesis
      using assms(2) by (simp add: main_analysis_def h b) (auto simp: emit_def)
  qed
qed

text \<open>
  Claim C7, as stated, fails: with the price history raising and the statements and the
  metadata available, the company information, the key metrics and the statement
  tables, none of which uses the price history, are not drawn either.
\<close>

theorem price_failure_blanks_page:
  "main_analysis int_numops (\<lambda>df. None) (\<lambda>t. Inr sample_stock) (Some ''AAPL'') ''1y'' =
     ([Spinner ''Analyzing AAPL data...'',
       Error ''Error fetching data: no price data'',
       Error ''Unable to fetch data for the selected ticker. Please try selecting a different stock.'',
       Markdown ''---''],
      Inr ())"
  by (simp add: main_analysis_def get_stock_data_def get_financial_data_def liftE_def
      sample_stock_def build_bundle_def stock_info_def Let_def exc_str_def returnIO_def)
    (simp add: emit_def)

theorem price_failure_suppresses_analysis_witness:
  "main_analysis int_numops (\<lambda>df. None) (\<lambda>t. Inr sample_stock) (Some ''AAPL'') ''1y'' =
     ([Spinner ''Analyzing AAPL data...'',
       Error ''Error fetching data: no price data'']
      @ fst (get_financial_data (\<lambda>t. Inr sample_stock) ''AAPL'')
      @ [Error ''Unable to fetch data for the selected ticker. Please try selecting a different stock.'',
         Markdown ''---''],
      Inr ())"
  using price_failure_suppresses_analysis [of "\<lambda>t. Inr sample_stock" "''AAPL''"
      "PyErr OtherException ''no price data''" "''1y''" int_numops "\<lambda>df. None"]
  by (simp add: sample_stock_def exc_str_def)


subsection \<open>Ticker universe\<close>

lemma fallback_length: "length fallback_tickers = 50"
  by (simp add: fallback_tickers_def)

text \<open>
  Claim C9. The universe is the "Symbol" column of the first table of the remote page
  when the page is read, has a table and the table has that column; in every other
  case it is the fixed list of 50 symbols. Either way nothing is drawn on the page and
  the remote source is called once.
\<close>

theorem universe_remote_or_fallback:
  "get_sp500_tickers read_html k =
     (([], Inr (case read_html k of
                  Inr (t # ts) \<Rightarrow> (case map_of t ''Symbol'' of
                                     Some symbols \<Rightarrow> symbols
                                   | None \<Rightarrow> fallback_tickers)
                | Inr [] \<Rightarrow> fallback_tickers
                | Inl e \<Rightarrow> fallback_tickers)), Suc k)
   \<and> length fallback_tickers = 50"
  by (simp add: get_sp500_tickers_def read_symbols_def first_table_def table_column_def
      returnIO_def fallback_length split: sum.splits list.splits option.splits)

subsection \<open>Dividends and splits\<close>
































subsection \<open>View state\<close>

lemma list_index_Inr: "list_index xs x = Inr i \<Longrightarrow> i < length xs \<and> xs ! i = x"
proof (induction xs arbitrary: i)
  case Nil
  then show ?case by simp
next
  case (Cons y ys)
  show ?case
  proof (cases "y = x")
    case True
    with Cons.prems show ?thesis by simp
  next
    case False
    with Cons.prems obtain j where j: "list_index ys x = Inr j" "i = Suc j"
      by (cases "list_index ys x") auto
    with Cons.IH [of j] show ?thesis by simp
  qed
qed

lemma list_index_mem: "x \<in> set xs \<Longrightarrow> \<exists>i. list_index xs x = Inr i"
  by (induction xs) auto

lemma list_index_hd: "list_index (x # xs) x = Inr 0"
  by simp

lemma find_period_index_options:
  "find_period_index period_options up 0 3 =
     (if up = ''1mo'' then 0 else if up = ''3mo'' then 1 else if up = ''6mo'' then 2
      else if up = ''1y'' then 3 else if up = ''2y'' then 4 else if up = ''5y'' then 5 else 3)"
  by (simp add: period_options_def)

lemma first_run_period:
  "\<exists>n. first_run_pick key (map fst period_options) (find_period_index period_options up 0 3)
          = Inr (Some n)
       \<and> period_code (Some n) = Inr (if up \<in> set period_codes then up else ''1y'')"
  unfolding find_period_index_options
  by (simp add: first_run_pick_def period_options_def period_code_def period_codes_def)

lemma first_run_ticker:
  "first_run_pick key U (case list_index U x of Inr i \<Rightarrow> i | Inl e \<Rightarrow> 0) =
     Inr (case U of [] \<Rightarrow> None
          | u # us \<Rightarrow> Some (U ! (case list_index U x of Inr i \<Rightarrow> i | Inl e \<Rightarrow> 0)))"
proof (cases U)
  case Nil
  then show ?thesis by (simp add: first_run_pick_def)
next
  case (Cons u us)
  have "(case list_index U x of Inr i \<Rightarrow> i | Inl e \<Rightarrow> 0) < length U"
    using list_index_Inr [of U x] Cons by (cases "list_index U x") auto
  with Cons show ?thesis by (simp add: first_run_pick_def)
qed

lemma main_selection_first_run:
  assumes "get_query_params qget = (ut, up)"
  shows "main_selection first_run_pick U qget =
     ([PageTitle ''Stock Analysis Dashboard'',
       InfoBox ''Comprehensive financial information and stock price analysis for S&P 500 companies.'',
       Header ''Settings'',
       Selectbox ''Select S&P 500 Stock:'' U (initial_ticker_index U ut),
       Selectbox ''Analysis Period:'' (map fst period_options)
         (find_period_index period_options up 0 3),
       Button ''Start Analysis'', Markdown ''---'', Markdown ''**Current Selection:**'',
       WriteValue ''Ticker''
         (str_or_none (case U of [] \<Rightarrow> None | u # us \<Rightarrow> Some (U ! initial_ticker_index U ut))),
       WriteValue ''Period'' (PyStr (if up \<in> set period_codes then up else ''1y''))],
      Inr (case U of [] \<Rightarrow> None | u # us \<Rightarrow> Some (U ! initial_ticker_index U ut),
           if up \<in> set period_codes then up else ''1y''))"
proof -
  obtain n where n: "first_run_pick ''period_selectbox'' (map fst period_options)
        (find_period_index period_options up 0 3) = Inr (Some n)"
    "period_code (Some n) = Inr (if up \<in> set period_codes then up else ''1y'')"
    using first_run_period by blast
  show ?thesis
    unfolding main_selection_def assms Let_def prod.case st_selectbox_def
      initial_ticker_index_def [symmetric]
    unfolding initial_ticker_index_def first_run_ticker n liftE_def
    by (simp add: n returnIO_def emit_def)
qed


lemma period_fallback_value:
  assumes "period_falls_back qget" and "get_query_params qget = (ut, up)"
  shows "up \<notin> set period_codes \<or> up = ''1y''"
  using assms
  by (auto simp: period_falls_back_def get_query_params_def with_default_def
      split: sum.splits option.splits)

lemma ticker_fallback_value:
  assumes "ticker_falls_back U qget" and "get_query_params qget = (ut, up)"
  shows "ut \<notin> set U \<or> ut = ''AAPL''"
  using assms
  by (auto simp: ticker_falls_back_def get_query_params_def with_default_def
      split: sum.splits option.splits)

lemma one_year_code: "''1y'' \<in> set period_codes"
  by (simp add: period_codes_def period_options_def)

lemma fallback_period_index:
  "up \<notin> set period_codes \<or> up = ''1y'' \<Longrightarrow> find_period_index period_options up 0 3 = 3"
  unfolding find_period_index_options
  by (auto simp: period_codes_def period_options_def)

lemma fallback_ticker_index:
  assumes "ut \<notin> set U \<or> ut = ''AAPL''"
  shows "initial_ticker_index U ut = (case list_index U ''AAPL'' of Inr i \<Rightarrow> i | Inl e \<Rightarrow> 0)"
  using assms by (auto simp: initial_ticker_index_def)

lemma list_index_not_mem: "x \<notin> set xs \<Longrightarrow> \<exists>e. list_index xs x = Inl e"
  by (induction xs) auto

lemma fallback_head: "\<exists>us. fallback_tickers = ''AAPL'' # us"
  by (simp add: fallback_tickers_def)

text \<open>
  Claim C6, amended. In a new session the selection never raises. The period is one of
  the six codes, and it is \<open>1y\<close> at selector index 3 when the period parameter is absent
  or not a code or reading the parameters raises. When the ticker parameter is present
  but not in the universe, or reading the parameters raises, the ticker is \<open>AAPL\<close> at
  its first position in the universe, provided the universe has it: index 0 for the
  built-in list. When the universe lacks \<open>AAPL\<close> the selector starts at index 0, on
  the first symbol of the universe.
\<close>

theorem view_state_initialization:
  "\<exists>evs sel per.
     (main_selection first_run_pick U qget :: ('n, string option \<times> string) io)
       = (evs, Inr (sel, per))
     \<and> per \<in> set period_codes
     \<and> (period_falls_back qget \<longrightarrow>
          per = ''1y'' \<and> Selectbox ''Analysis Period:'' (map fst period_options) 3 \<in> set evs)
     \<and> (ticker_falls_back U qget \<and> ''AAPL'' \<in> set U \<longrightarrow>
          sel = Some ''AAPL''
          \<and> (\<exists>i. list_index U ''AAPL'' = Inr i
                 \<and> Selectbox ''Select S&P 500 Stock:'' U i \<in> set evs))
     \<and> (ticker_falls_back U qget \<and> U = fallback_tickers \<longrightarrow>
          sel = Some ''AAPL'' \<and> Selectbox ''Select S&P 500 Stock:'' U 0 \<in> set evs)
     \<and> (ticker_falls_back U qget \<and> ''AAPL'' \<notin> set U \<longrightarrow>
          sel = (case U of [] \<Rightarrow> None | u # us \<Rightarrow> Some u)
          \<and> Selectbox ''Select S&P 500 Stock:'' U 0 \<in> set evs)"
proof -
  obtain ut up where q: "get_query_params qget = (ut, up)"
    by (cases "get_query_params qget")
  let ?ti = "initial_ticker_index U ut"
  let ?sel = "case U of [] \<Rightarrow> None | u # us \<Rightarrow> Some (U ! ?ti)"
  let ?per = "if up \<in> set period_codes then up else ''1y''"
  let ?evs = "[PageTitle ''Stock Analysis Dashboard'',
       InfoBox ''Comprehensive financial information and stock price analysis for S&P 500 companies.'',
       Header ''Settings'',
       Selectbox ''Select S&P 500 Stock:'' U ?ti,
       Selectbox ''Analysis Period:'' (map fst period_options)
         (find_period_index period_options up 0 3),
       Button ''Start Analysis'', Markdown ''---'', Markdown ''**Current Selection:**'',
       WriteValue ''Ticker'' (str_or_none ?sel),
       WriteValue ''Period'' (PyStr ?per)] :: 'n ui_event list"
  have run: "(main_selection first_run_pick U qget :: ('n, string option \<times> string) io)
      = (?evs, Inr (?sel, ?per))"
    by (rule main_selection_first_run [OF q])
  have p1: "?per \<in> set period_codes"
    by (simp add: one_year_code)
  have p2: "period_falls_back qget \<longrightarrow>
          ?per = ''1y'' \<and> Selectbox ''Analysis Period:'' (map fst period_options) 3 \<in> set ?evs"
  proof
    assume "period_falls_back qget"
    then have c: "up \<notin> set period_codes \<or> up = ''1y''"
      using q by (rule period_fallback_value)
    then have "find_period_index period_options up 0 3 = 3"
      by (rule fallback_period_index)
    with c show "?per = ''1y'' \<and>
        Selectbox ''Analysis Period:'' (map fst period_options) 3 \<in> set ?evs"
      by auto
  qed
  have t1: "ticker_falls_back U qget \<and> ''AAPL'' \<in> set U \<longrightarrow>
          ?sel = Some ''AAPL''
          \<and> (\<exists>i. list_index U ''AAPL'' = Inr i
                 \<and> Selectbox ''Select S&P 500 Stock:'' U i \<in> set ?evs)"
  proof
    assume h: "ticker_falls_back U qget \<and> ''AAPL'' \<in> set U"
    then have "ut \<notin> set U \<or> ut = ''AAPL''"
      using q ticker_fallback_value by blast
    then have ti: "?ti = (case list_index U ''AAPL'' of Inr i \<Rightarrow> i | Inl e \<Rightarrow> 0)"
      by (rule fallback_ticker_index)
    from h obtain i where i: "list_index U ''AAPL'' = Inr i"
      using list_index_mem by blast
    then have "i < length U" "U ! i = ''AAPL''"
      using list_index_Inr by blast+
    with ti i show "?sel = Some ''AAPL''
          \<and> (\<exists>i. list_index U ''AAPL'' = Inr i
                 \<and> Selectbox ''Select S&P 500 Stock:'' U i \<in> set ?evs)"
      by (cases U) auto
  qed
  have t3: "ticker_falls_back U qget \<and> ''AAPL'' \<notin> set U \<longrightarrow>
          ?sel = (case U of [] \<Rightarrow> None | u # us \<Rightarrow> Some u)
          \<and> Selectbox ''Select S&P 500 Stock:'' U 0 \<in> set ?evs"
  proof
    assume h: "ticker_falls_back U qget \<and> ''AAPL'' \<notin> set U"
    then have "ut \<notin> set U \<or> ut = ''AAPL''"
      using q ticker_fallback_value by blast
    then have ti: "?ti = (case list_index U ''AAPL'' of Inr i \<Rightarrow> i | Inl e \<Rightarrow> 0)"
      by (rule fallback_ticker_index)
    from h obtain e where "list_index U ''AAPL'' = Inl e"
      using list_index_not_mem by blast
    with ti have "?ti = 0" by simp
    then show "?sel = (case U of [] \<Rightarrow> None | u # us \<Rightarrow> Some u)
          \<and> Selectbox ''Select S&P 500 Stock:'' U 0 \<in> set ?evs"
      by (cases U) auto
  qed
  have t2: "ticker_falls_back U qget \<and> U = fallback_tickers \<longrightarrow>
          ?sel = Some ''AAPL'' \<and> Selectbox ''Select S&P 500 Stock:'' U 0 \<in> set ?evs"
  proof
    assume h: "ticker_falls_back U qget \<and> U = fallback_tickers"
    then obtain us where U: "U = ''AAPL'' # us"
      using fallback_head by blast
    then have "''AAPL'' \<in> set U" and i: "list_index U ''AAPL'' = Inr 0"
      by simp_all
    with h t1 show "?sel = Some ''AAPL'' \<and> Selectbox ''Select S&P 500 Stock:'' U 0 \<in> set ?evs"
      by auto
  qed
  from run p1 p2 t1 t2 t3 show ?thesis
    by blast
qed

text \<open>
  Claim C6, as stated, fails twice. With no ticker parameter and the built-in list the
  selection is \<open>GOOGL\<close>, not \<open>AAPL\<close>. With a ticker outside a universe that lists
  \<open>AAPL\<close> second, the selector starts at index 1, not 0.
\<close>

theorem view_state_other_defaults:
  "snd (main_selection first_run_pick fallback_tickers (qp_of [])
          :: (int, string option \<times> string) io) = Inr (Some ''GOOGL'', ''1y'')
   \<and> Selectbox ''Select S&P 500 Stock:'' [''MMM'', ''AAPL''] 1
       \<in> set (fst (main_selection first_run_pick [''MMM'', ''AAPL'']
                     (qp_of [(''ticker'', ''ZZZZ'')]) :: (int, string option \<times> string) io))"
proof -
  have a: "get_query_params (qp_of []) = (''GOOGL'', ''1y'')"
    by (simp add: get_query_params_def qp_of_def with_default_def)
  have b: "get_query_params (qp_of [(''ticker'', ''ZZZZ'')]) = (''ZZZZ'', ''1y'')"
    by (simp add: get_query_params_def qp_of_def with_default_def)
  have i: "initial_ticker_index fallback_tickers ''GOOGL'' = 3"
    by (simp add: initial_ticker_index_def fallback_tickers_def)
  have g: "(case fallback_tickers of [] \<Rightarrow> None | u # us \<Rightarrow> Some (fallback_tickers ! 3))
      = Some ''GOOGL''"
    by (simp add: fallback_tickers_def)
  have j: "initial_ticker_index [''MMM'', ''AAPL''] ''ZZZZ'' = 1"
    by (simp add: initial_ticker_index_def)
  show ?thesis
    unfolding main_selection_first_run [OF a] main_selection_first_run [OF b] i j g
    by (simp add: one_year_code)
qed

theorem view_state_initialization_witness:
  "snd (main_selection first_run_pick fallback_tickers
          (qp_of [(''ticker'', ''ZZZZ''), (''period'', ''7y'')])
          :: (int, string option \<times> string) io) = Inr (Some ''AAPL'', ''1y'')"
proof -
  have t: "ticker_falls_back fallback_tickers (qp_of [(''ticker'', ''ZZZZ''), (''period'', ''7y'')])"
    by (simp add: ticker_falls_back_def qp_of_def fallback_tickers_def)
  have p: "period_falls_back (qp_of [(''ticker'', ''ZZZZ''), (''period'', ''7y'')])"
    by (simp add: period_falls_back_def qp_of_def period_codes_def period_options_def)
  from view_state_initialization [of fallback_tickers
      "qp_of [(''ticker'', ''ZZZZ''), (''period'', ''7y'')]", where ?'n = int] t p
  show ?thesis by auto
qed

end
